theory Spec2Isabelle
  imports Main "HOL-Library.Word"
begin

unbundle bit_operations_syntax

section \<open>GTPv2-C information-element decoders (src/sm/sm\_ie\_formatter.c)\<close>

subsection \<open>Machine types and the view of the IE buffer\<close>

type_synonym uint8_t = "8 word"
type_synonym uint16_t = "16 word"
type_synonym uint32_t = "32 word"

text \<open>
  Return codes of the decoders. The enumeration \<open>nw_rc_t\<close> is declared in NwGtpv2c.h,
  which is not among the sources; only the three codes the decoders return are listed.
\<close>

datatype nw_rc_t = NW_OK | NW_FAILURE | NW_GTPV2C_IE_INCORRECT

text \<open>
  A decoder receives a bare pointer \<open>uint8_t *ieValue\<close> and the declared length
  \<open>ieLength\<close>. The memory behind the pointer is a function from the offset (relative to
  the first byte of the IE body) to the byte stored there; offsets at or beyond
  \<open>ieLength\<close> are memory that follows the IE. The local pointer variable is part of the
  decoder's state: \<open>ieValue\<close> is its current offset and \<open>accessed\<close> records, in order,
  every offset the decoder dereferences. The parameters \<open>ieType\<close> and \<open>ieInstance\<close>
  are used by no decoder and are left out; \<open>arg\<close> is the output record, passed in and
  returned with the return code.
\<close>

type_synonym ie_mem = "nat \<Rightarrow> uint8_t"

record rd_state =
  ieValue :: nat
  accessed :: "nat list"

definition rd_init :: rd_state where
  "rd_init = \<lparr>ieValue = 0, accessed = []\<rparr>"

text \<open>\<open>ieValue[k]\<close> (and \<open>*ieValue\<close> for \<open>k = 0\<close>): one byte is read.\<close>

definition deref :: "ie_mem \<Rightarrow> nat \<Rightarrow> rd_state \<Rightarrow> uint8_t \<times> rd_state" where
  "deref buf k s = (buf (ieValue s + k), s\<lparr>accessed := accessed s @ [ieValue s + k]\<rparr>)"

text \<open>\<open>ieValue += k\<close>.\<close>

definition advance :: "nat \<Rightarrow> rd_state \<Rightarrow> rd_state" where
  "advance k s = s\<lparr>ieValue := ieValue s + k\<rparr>"

text \<open>A buffer holding the given bytes, followed by zero bytes.\<close>

definition buf_of :: "uint8_t list \<Rightarrow> ie_mem" where
  "buf_of bs = (\<lambda>i. if i < length bs then bs ! i else 0)"

subsection \<open>MBMS bearer flags\<close>

text \<open>
  Modelled from the spec: the type \<open>mbms_flags_t\<close> is declared in a header that is not
  among the sources. The specification exposes its two fields as booleans
  (\<open>msri=true, lmri=false\<close>); assigning \<open>ieValue[0] & 0x02\<close> to a C \<open>bool\<close> stores
  whether the value is non-zero.
\<close>

record mbms_flags_t =
  msri :: bool
  lmri :: bool

definition sm_mbms_flags_ie_get ::
  "uint16_t \<Rightarrow> ie_mem \<Rightarrow> mbms_flags_t \<Rightarrow> (nw_rc_t \<times> mbms_flags_t) \<times> rd_state" where
  "sm_mbms_flags_ie_get ieLength buf bearer_flags =
    (if ieLength \<noteq> 1 then ((NW_GTPV2C_IE_INCORRECT, bearer_flags), rd_init)
     else
       let (b0, s1) = deref buf 0 rd_init;
           bearer_flags = bearer_flags\<lparr>msri := (b0 AND 0x01 \<noteq> 0)\<rparr>;
           (b0', s2) = deref buf 0 s1;
           bearer_flags = bearer_flags\<lparr>lmri := (b0' AND 0x02 \<noteq> 0)\<rparr>
       in ((NW_OK, bearer_flags), s2))"

subsection \<open>MBMS session duration\<close>

text \<open>
  Modelled from the spec: the type \<open>mbms_session_duration_t\<close> is declared in a header
  that is not among the sources. The specification takes the \<open>seconds\<close> field to hold
  the value of the whole expression assigned to it, and \<open>days\<close> seven bits: \<open>seconds\<close>
  is an unsigned 32-bit field and \<open>days\<close> a byte here. The right-hand sides are
  computed in C's \<open>int\<close> (the bytes are promoted) and stay below \<open>2^25\<close>.
\<close>

record mbms_session_duration_t =
  seconds :: uint32_t
  days :: uint8_t

definition sm_mbms_session_duration_ie_get ::
  "uint16_t \<Rightarrow> ie_mem \<Rightarrow> mbms_session_duration_t
    \<Rightarrow> (nw_rc_t \<times> mbms_session_duration_t) \<times> rd_state" where
  "sm_mbms_session_duration_ie_get ieLength buf msd =
    (let (b0, s1) = deref buf 0 rd_init;
         (b1, s2) = deref buf 1 s1;
         (b2, s3) = deref buf 2 s2;
         msd = msd\<lparr>seconds := push_bit 17 (ucast b0) + push_bit 9 (ucast b1)
                                  + ucast (b2 AND 0x80)\<rparr>;
         (b3, s4) = deref buf 3 s3;
         msd = msd\<lparr>days := b3 AND 0x7F\<rparr>;
         s5 = advance 3 s4
     in ((NW_OK, msd), s5))"

subsection \<open>MBMS flow identifier\<close>

text \<open>
  \<open>*(uint16_t*)ieValue\<close> reads the two bytes at the pointer as one 16-bit object, so
  its value depends on the byte order of the host, which is a parameter of the model
  (\<open>True\<close> for a little-endian host).
\<close>

definition deref16 :: "bool \<Rightarrow> ie_mem \<Rightarrow> rd_state \<Rightarrow> uint16_t \<times> rd_state" where
  "deref16 little_endian buf s =
    (let (b0, s1) = deref buf 0 s;
         (b1, s2) = deref buf 1 s1
     in ((if little_endian then push_bit 8 (ucast b1) OR ucast b0
          else push_bit 8 (ucast b0) OR ucast b1), s2))"


subsection \<open>Absolute time of MBMS data transfer\<close>

text \<open>
  \<open>memcpy (dst, ieValue, n)\<close> reads the \<open>n\<close> bytes at the pointer, at the offsets
  \<open>ieValue\<close> up to \<open>ieValue + n - 1\<close>.
\<close>

definition deref_n :: "ie_mem \<Rightarrow> nat \<Rightarrow> rd_state \<Rightarrow> uint8_t list \<times> rd_state" where
  "deref_n buf n s =
    (map buf [ieValue s..<ieValue s + n],
     s\<lparr>accessed := accessed s @ [ieValue s..<ieValue s + n]\<rparr>)"



subsection \<open>MBMS IP multicast distribution\<close>

text \<open>
  The macro \<open>ntoh_int32_buf\<close> comes from conversions.h, which is not among the sources.
  It is taken to read the four bytes at the pointer as a big-endian 32-bit value (the
  decoder steps over exactly four bytes after it).
\<close>

definition be32 :: "uint8_t \<Rightarrow> uint8_t \<Rightarrow> uint8_t \<Rightarrow> uint8_t \<Rightarrow> uint32_t" where
  "be32 b0 b1 b2 b3 =
     push_bit 24 (ucast b0) OR push_bit 16 (ucast b1) OR push_bit 8 (ucast b2) OR ucast b3"

definition ntoh_int32_buf :: "ie_mem \<Rightarrow> rd_state \<Rightarrow> uint32_t \<times> rd_state" where
  "ntoh_int32_buf buf s =
    (let (b0, s1) = deref buf 0 s;
         (b1, s2) = deref buf 1 s1;
         (b2, s3) = deref buf 2 s2;
         (b3, s4) = deref buf 3 s3
     in (be32 b0 b1 b2 b3, s4))"

text \<open>
  The C library's \<open>htonl\<close>: the identity on a big-endian host, a byte swap on a
  little-endian one. \<open>obj_bytes\<close> gives the four bytes a 32-bit object occupies in the
  host's memory, lowest address first.
\<close>

definition byte_of :: "nat \<Rightarrow> uint32_t \<Rightarrow> uint8_t" where
  "byte_of k x = ucast (drop_bit (8 * k) x)"

definition htonl :: "bool \<Rightarrow> uint32_t \<Rightarrow> uint32_t" where
  "htonl little_endian x =
    (if little_endian then be32 (byte_of 0 x) (byte_of 1 x) (byte_of 2 x) (byte_of 3 x)
     else x)"

definition obj_bytes :: "bool \<Rightarrow> uint32_t \<Rightarrow> uint8_t list" where
  "obj_bytes little_endian x =
    (if little_endian then [byte_of 0 x, byte_of 1 x, byte_of 2 x, byte_of 3 x]
     else [byte_of 3 x, byte_of 2 x, byte_of 1 x, byte_of 0 x])"

text \<open>
  The output type is declared in a header that is not among the sources. An address
  holds the IPv4 member (\<open>ipv4_address.s_addr\<close>) and the IPv6 member (its 16 bytes);
  the decoder writes the one the descriptor selects.
\<close>

record ip_address_t =
  ipv4_address :: uint32_t
  ipv6_address :: "uint8_t list"

record mbms_ip_multicast_distribution_t =
  cteid :: uint32_t
  da_type :: uint8_t
  distribution_address :: ip_address_t
  sa_type :: uint8_t
  source_address :: ip_address_t
  hc_indication :: uint8_t

text \<open>
  The decoder is one C function. Its two address blocks ("Distibution Address" and
  "Source Address" in the source's comments) are separate definitions here. A block
  either falls through to the code after it (\<open>Inr\<close>, with the record and the pointer as
  they are then) or returns from the decoder (\<open>Inl\<close>, with the return code).
\<close>

definition mc_distribution_address ::
  "bool \<Rightarrow> ie_mem \<Rightarrow> mbms_ip_multicast_distribution_t \<times> rd_state
    \<Rightarrow> ((nw_rc_t \<times> mbms_ip_multicast_distribution_t) \<times> rd_state)
        + (mbms_ip_multicast_distribution_t \<times> rd_state)" where
  "mc_distribution_address little_endian buf ms =
    (let (mc, s) = ms;
         (d, s) = deref buf 0 s;
         mc = mc\<lparr>da_type := drop_bit 6 (d AND 0xC0)\<rparr>;
         (d', s) = deref buf 0 s;
         da_length = unat (d' AND 0x3F);
         s = advance 1 s
     in
       if da_type mc = 0 then
         let (b0, s) = deref buf 0 s;
             (b1, s) = deref buf 1 s;
             (b2, s) = deref buf 2 s;
             (b3, s) = deref buf 3 s;
             hbo = be32 b0 b1 b2 b3
         in Inr (mc\<lparr>distribution_address :=
                    (distribution_address mc)\<lparr>ipv4_address := htonl little_endian hbo\<rparr>\<rparr>,
                 advance 4 s)
       else if da_type mc = 1 then
         if da_length \<noteq> 16 then Inl ((NW_FAILURE, mc), s)
         else
           let (bs, s) = deref_n buf da_length s
           in Inr (mc\<lparr>distribution_address :=
                      (distribution_address mc)\<lparr>ipv6_address := bs\<rparr>\<rparr>,
                   advance 16 s)
       else Inl ((NW_FAILURE, mc), s))"

definition mc_source_address ::
  "bool \<Rightarrow> ie_mem \<Rightarrow> mbms_ip_multicast_distribution_t \<times> rd_state
    \<Rightarrow> ((nw_rc_t \<times> mbms_ip_multicast_distribution_t) \<times> rd_state)
        + (mbms_ip_multicast_distribution_t \<times> rd_state)" where
  "mc_source_address little_endian buf ms =
    (let (mc, s) = ms;
         (d, s) = deref buf 0 s;
         mc = mc\<lparr>sa_type := drop_bit 6 (d AND 0xC0)\<rparr>;
         (d', s) = deref buf 0 s;
         sa_length = unat (d' AND 0x3F);
         s = advance 1 s
     in
       if sa_type mc = 0 then
         let (b0, s) = deref buf 0 s;
             (b1, s) = deref buf 1 s;
             (b2, s) = deref buf 2 s;
             (b3, s) = deref buf 3 s;
             hbo = be32 b0 b1 b2 b3
         in Inr (mc\<lparr>source_address :=
                    (source_address mc)\<lparr>ipv4_address := htonl little_endian hbo\<rparr>\<rparr>,
                 advance 4 s)
       else if sa_type mc = 1 then
         if sa_length \<noteq> 16 then Inl ((NW_FAILURE, mc), s)
         else
           let (bs, s) = deref_n buf sa_length s
           in Inr (mc\<lparr>source_address :=
                      (source_address mc)\<lparr>ipv6_address := bs\<rparr>\<rparr>,
                   advance 16 s)
       else Inl ((NW_FAILURE, mc), s))"

definition sm_mbms_ip_multicast_distribution_ie_get ::
  "bool \<Rightarrow> uint16_t \<Rightarrow> ie_mem \<Rightarrow> mbms_ip_multicast_distribution_t
    \<Rightarrow> (nw_rc_t \<times> mbms_ip_multicast_distribution_t) \<times> rd_state" where
  "sm_mbms_ip_multicast_distribution_ie_get little_endian ieLength buf mc =
    (let (c, s) = ntoh_int32_buf buf rd_init;
         mc = mc\<lparr>cteid := c\<rparr>;
         s = advance 4 s
     in
       case mc_distribution_address little_endian buf (mc, s) of
         Inl ret \<Rightarrow> ret
       | Inr ms \<Rightarrow>
          (case mc_source_address little_endian buf ms of
             Inl ret \<Rightarrow> ret
           | Inr (mc, s) \<Rightarrow>
              (let (h, s) = deref buf 0 s;
                   mc = mc\<lparr>hc_indication := h\<rparr>;
                   s = advance 1 s
               in ((NW_OK, mc), s))))"

subsection \<open>TMGI\<close>

text \<open>
  A C function either returns, or stops the process at a failed assertion
  (\<open>Aborted\<close>), or indexes an array outside its bounds, which is undefined behaviour
  (\<open>OutOfBounds\<close>). A loop that never exits is the value \<open>None\<close> of an option.

  \<open>DevAssert\<close> is a macro of assertions.h, which is not among the sources. A failed
  assertion stops the process; whether assertions are compiled in is the parameter
  \<open>assertions\<close> of the decoder. The assertions on the output pointer are left out:
  the output record is always supplied.
\<close>

datatype 'a outcome = Aborted | OutOfBounds | Returned 'a

text \<open>
  \<open>tmgi_t\<close> and \<open>plmn_t\<close> are declared in headers that are not among the sources.
  The service identifier is taken as an unsigned 32-bit field and each PLMN digit as a
  byte (a digit is at most 15). \<open>MBMS_SERVICE_ID_DIGITS\<close> is a macro of such a header
  too and is a parameter of the decoder.
\<close>

record plmn_t =
  mcc_digit1 :: uint8_t
  mcc_digit2 :: uint8_t
  mcc_digit3 :: uint8_t
  mnc_digit1 :: uint8_t
  mnc_digit2 :: uint8_t
  mnc_digit3 :: uint8_t

record tmgi_t =
  serviceId :: uint32_t
  plmn :: plmn_t

text \<open>
  One pass through the body of the \<open>while\<close> loop: it reads \<open>ieValue[decoded]\<close>,
  accumulates it and advances the pointer. It does not change \<open>decoded\<close>.
\<close>

definition sm_tmgi_loop_body :: "ie_mem \<Rightarrow> uint8_t \<Rightarrow> tmgi_t \<times> rd_state \<Rightarrow> tmgi_t \<times> rd_state" where
  "sm_tmgi_loop_body buf decoded ts =
    (let (tmgi, s) = ts;
         (tmp, s) = deref buf (unat decoded) s;
         tmgi = tmgi\<lparr>serviceId := ucast tmp + push_bit 8 (serviceId tmgi)\<rparr>;
         s = advance 1 s
     in (tmgi, s))"

text \<open>
  \<open>while (decoded < MBMS_SERVICE_ID_DIGITS) { ... }\<close>; \<open>None\<close> when it never exits. The
  memory of the model has no end, so a loop that does not exit runs forever; on a
  machine it reads ever higher addresses until an access faults. Either way the decoder
  does not return.
\<close>

partial_function (option) sm_tmgi_loop ::
  "nat \<Rightarrow> ie_mem \<Rightarrow> uint8_t \<Rightarrow> tmgi_t \<times> rd_state \<Rightarrow> (tmgi_t \<times> rd_state) option" where
  "sm_tmgi_loop MBMS_SERVICE_ID_DIGITS buf decoded ts =
    (if unat decoded < MBMS_SERVICE_ID_DIGITS
     then sm_tmgi_loop MBMS_SERVICE_ID_DIGITS buf decoded (sm_tmgi_loop_body buf decoded ts)
     else Some ts)"

definition sm_tmgi_ie_get ::
  "bool \<Rightarrow> nat \<Rightarrow> uint16_t \<Rightarrow> ie_mem \<Rightarrow> tmgi_t
    \<Rightarrow> ((nw_rc_t \<times> tmgi_t) \<times> rd_state) outcome option" where
  "sm_tmgi_ie_get assertions MBMS_SERVICE_ID_DIGITS ieLength buf tmgi =
    (let decoded = 0 in
     if assertions \<and> \<not> unat ieLength \<le> MBMS_SERVICE_ID_DIGITS then Some Aborted
     else
       case sm_tmgi_loop MBMS_SERVICE_ID_DIGITS buf decoded (tmgi, rd_init) of
         None \<Rightarrow> None
       | Some (tmgi, s) \<Rightarrow>
          (let (b, s) = deref buf 0 s;
               tmgi = tmgi\<lparr>plmn := (plmn tmgi)\<lparr>mcc_digit2 := drop_bit 4 (b AND 0xf0)\<rparr>\<rparr>;
               (b, s) = deref buf 0 s;
               tmgi = tmgi\<lparr>plmn := (plmn tmgi)\<lparr>mcc_digit1 := b AND 0x0f\<rparr>\<rparr>;
               s = advance 1 s;
               (b, s) = deref buf 0 s;
               tmgi = tmgi\<lparr>plmn := (plmn tmgi)\<lparr>mnc_digit3 := drop_bit 4 (b AND 0xf0)\<rparr>\<rparr>;
               (b, s) = deref buf 0 s;
               tmgi = tmgi\<lparr>plmn := (plmn tmgi)\<lparr>mcc_digit3 := b AND 0x0f\<rparr>\<rparr>;
               s = advance 1 s;
               (b, s) = deref buf 0 s;
               tmgi = tmgi\<lparr>plmn := (plmn tmgi)\<lparr>mnc_digit2 := drop_bit 4 (b AND 0xf0)\<rparr>\<rparr>;
               (b, s) = deref buf 0 s;
               tmgi = tmgi\<lparr>plmn := (plmn tmgi)\<lparr>mnc_digit1 := b AND 0x0f\<rparr>\<rparr>;
               s = advance 1 s
           in Some (Returned ((NW_OK, tmgi), s))))"

subsection \<open>MBMS service area\<close>

text \<open>
  \<open>mbms_service_area_t\<close> is declared in a header that is not among the sources: a
  count and an array of 16-bit codes. The loop only ever writes element 0 of the array.
\<close>

record mbms_service_area_t =
  num_service_area :: uint8_t
  serviceArea :: "uint16_t list"

definition sm_mbms_service_area_loop_body ::
  "bool \<Rightarrow> ie_mem \<Rightarrow> int \<Rightarrow> mbms_service_area_t \<times> rd_state
    \<Rightarrow> mbms_service_area_t \<times> rd_state" where
  "sm_mbms_service_area_loop_body little_endian buf decoded as =
    (let (mbms_service_area, s) = as;
         (v, s) = deref16 little_endian buf s;
         mbms_service_area =
           mbms_service_area\<lparr>serviceArea := (serviceArea mbms_service_area)[nat decoded := v]\<rparr>;
         s = advance 2 s
     in (mbms_service_area, s))"

text \<open>\<open>while (decoded < mbms_service_area->num_service_area) { ... }\<close>.\<close>

partial_function (option) sm_mbms_service_area_loop ::
  "bool \<Rightarrow> ie_mem \<Rightarrow> int \<Rightarrow> mbms_service_area_t \<times> rd_state
    \<Rightarrow> (mbms_service_area_t \<times> rd_state) option" where
  "sm_mbms_service_area_loop little_endian buf decoded as =
    (if decoded < uint (num_service_area (fst as))
     then sm_mbms_service_area_loop little_endian buf decoded
            (sm_mbms_service_area_loop_body little_endian buf decoded as)
     else Some as)"

definition sm_mbms_service_area_ie_get ::
  "bool \<Rightarrow> uint16_t \<Rightarrow> ie_mem \<Rightarrow> mbms_service_area_t
    \<Rightarrow> ((nw_rc_t \<times> mbms_service_area_t) \<times> rd_state) option" where
  "sm_mbms_service_area_ie_get little_endian ieLength buf mbms_service_area =
    (let (n, s) = deref buf 0 rd_init;
         mbms_service_area = mbms_service_area\<lparr>num_service_area := n\<rparr>;
         s = advance 1 s;
         decoded = 0
     in
       case sm_mbms_service_area_loop little_endian buf decoded (mbms_service_area, s) of
         None \<Rightarrow> None
       | Some (mbms_service_area, s) \<Rightarrow> Some ((NW_OK, mbms_service_area), s))"

section \<open>PDN connectivity procedure (SRC/NAS/ESM/PdnConnectivity.c)\<close>

subsection \<open>Constants and types of the missing headers\<close>

text \<open>
  The macros \<open>ESM_DATA_PDN_MAX\<close>, \<open>ESM_DATA_IP_ADDRESS_SIZE\<close> (esmData.h) and
  \<open>ESM_PT_UNASSIGNED\<close> (esm\_pt.h) are not among the sources: they are parameters of
  the model, gathered in one record.
\<close>

record esm_macros =
  ESM_DATA_PDN_MAX :: nat
  ESM_PT_UNASSIGNED :: int
  ESM_DATA_IP_ADDRESS_SIZE :: nat

text \<open>
  Modelled from the spec: commonDef.h, which defines \<open>RETURNok\<close> and \<open>RETURNerror\<close>,
  is not among the sources. The specification reports failure by "returning a
  negative/sentinel id", next to connection identifiers that are non-negative; the
  header comment of \<open>_pdn_connectivity_create\<close> gives \<open>-1\<close>.
\<close>

definition RETURNok :: int where
  "RETURNok = 0"

definition RETURNerror :: int where
  "RETURNerror = - 1"

text \<open>The ESM cause codes the procedure names (esm\_cause.h).\<close>

datatype esm_cause =
    ESM_CAUSE_SUCCESS
  | ESM_CAUSE_INSUFFICIENT_RESOURCES
  | ESM_CAUSE_REQUEST_REJECTED_UNSPECIFIED
  | ESM_CAUSE_SINGLE_ADDRESS_BEARERS_ONLY_ALLOWED
  | ESM_CAUSE_PDN_TYPE_IPV4_ONLY_ALLOWED
  | ESM_CAUSE_PDN_TYPE_IPV6_ONLY_ALLOWED

datatype esm_proc_pdn_type_t = ESM_PDN_TYPE_IPV4 | ESM_PDN_TYPE_IPV6 | ESM_PDN_TYPE_IPV4V6

text \<open>
  Modelled from the spec: the enumeration \<open>esm_proc_pdn_request_t\<close> (esm\_proc.h) is not
  among the sources, which name only \<open>ESM_PDN_REQUEST_EMERGENCY\<close>. The specification
  has the request types normal and emergency.
\<close>

datatype esm_proc_pdn_request_t = ESM_PDN_REQUEST_NORMAL | ESM_PDN_REQUEST_EMERGENCY

text \<open>
  \<open>OctetString\<close>: a length and a pointer to the bytes (fields \<open>length\<close> and \<open>value\<close>
  in C; the pointer is modelled by the bytes it points to, the empty list for \<open>NULL\<close>).
\<close>

record OctetString =
  length_os :: nat
  value_os :: "uint8_t list"

text \<open>
  \<open>esm_pdn_t\<close>: the fields of the connection record that the procedure writes.
  \<open>type_pdn\<close> is the field \<open>type\<close>; it is \<open>None\<close> while it holds the zero that
  \<open>memset\<close> left there.
\<close>

record esm_pdn_t =
  pti :: int
  is_emergency :: bool
  apn :: OctetString
  type_pdn :: "esm_proc_pdn_type_t option"
  ip_addr :: "uint8_t list"

text \<open>
  One element of the array \<open>pdn[]\<close> of the ESM context: the identifier, the active
  flag and the pointer to the connection record (\<open>None\<close> for \<open>NULL\<close>).
\<close>

record pdn_slot =
  pid :: int
  is_active :: bool
  data :: "esm_pdn_t option"

record esm_data_context_t =
  n_pdns :: int
  pdn :: "pdn_slot list"

record emm_data_context_t =
  ue_id :: nat
  esm_data_ctx :: esm_data_context_t

text \<open>\<open>ctx->esm_data_ctx.pdn[i]\<close>: \<open>None\<close> when \<open>i\<close> is outside the array.\<close>

definition pdn_at :: "emm_data_context_t \<Rightarrow> int \<Rightarrow> pdn_slot option" where
  "pdn_at ctx i =
    (if 0 \<le> i \<and> nat i < length (pdn (esm_data_ctx ctx))
     then Some (pdn (esm_data_ctx ctx) ! nat i) else None)"

text \<open>Assignment to \<open>ctx->esm_data_ctx.pdn[i]\<close>, and to \<open>ctx->esm_data_ctx.n_pdns\<close>.\<close>

definition pdn_set :: "nat \<Rightarrow> pdn_slot \<Rightarrow> emm_data_context_t \<Rightarrow> emm_data_context_t" where
  "pdn_set i slot ctx =
    ctx\<lparr>esm_data_ctx := (esm_data_ctx ctx)\<lparr>pdn := (pdn (esm_data_ctx ctx))[i := slot]\<rparr>\<rparr>"

definition n_pdns_set :: "int \<Rightarrow> emm_data_context_t \<Rightarrow> emm_data_context_t" where
  "n_pdns_set n ctx = ctx\<lparr>esm_data_ctx := (esm_data_ctx ctx)\<lparr>n_pdns := n\<rparr>\<rparr>"

subsection \<open>Creating a PDN connection\<close>

text \<open>
  The search loop of \<open>_pdn_connectivity_create\<close>:
  \<open>for (pid = 0; pid < ESM_DATA_PDN_MAX; pid++) { if (pdn[pid].data) continue; break; }\<close>.
  It returns the value of \<open>pid\<close> after the loop.
\<close>

function pdn_search :: "nat \<Rightarrow> emm_data_context_t \<Rightarrow> nat \<Rightarrow> nat outcome" where
  "pdn_search pdn_max ctx pid_var =
    (if pid_var < pdn_max then
       (case pdn_at ctx (int pid_var) of
          None \<Rightarrow> OutOfBounds
        | Some slot \<Rightarrow>
            if data slot \<noteq> None then pdn_search pdn_max ctx (pid_var + 1)
            else Returned pid_var)
     else Returned pid_var)"
  by pat_completeness auto
termination
  by (relation "measure (\<lambda>(pdn_max, ctx, pid_var). pdn_max - pid_var)") auto

declare pdn_search.simps [simp del]

text \<open>
  The connection record as \<open>_pdn_connectivity_create\<close> fills it in after
  \<open>memset (pdn, 0, sizeof (esm_pdn_t))\<close>: the transaction identity, the emergency
  indicator, the copy of the APN (when one is given and its allocation succeeds:
  \<open>malloc_apn\<close>) and the allocated address with the PDN type (when one is given).
\<close>

definition esm_pdn_setup ::
  "esm_macros \<Rightarrow> bool \<Rightarrow> int \<Rightarrow> OctetString option \<Rightarrow> esm_proc_pdn_type_t
    \<Rightarrow> OctetString option \<Rightarrow> bool \<Rightarrow> esm_pdn_t" where
  "esm_pdn_setup K malloc_apn pti_arg apn_arg pdn_type pdn_addr is_emergency_arg =
    (let p = \<lparr>pti = 0, is_emergency = False,
               apn = \<lparr>length_os = 0, value_os = []\<rparr>,
               type_pdn = None,
               ip_addr = replicate (ESM_DATA_IP_ADDRESS_SIZE K) 0\<rparr>;
         p = p\<lparr>pti := pti_arg\<rparr>;
         p = p\<lparr>is_emergency := is_emergency_arg\<rparr>;
         p = (case apn_arg of
                None \<Rightarrow> p
              | Some a \<Rightarrow>
                  if length_os a > 0 then
                    if malloc_apn then
                      p\<lparr>apn := \<lparr>length_os = length_os a,
                                value_os = take (length_os a) (value_os a) @ [0]\<rparr>\<rparr>
                    else p
                  else p);
         p = (case pdn_addr of
                None \<Rightarrow> p
              | Some a \<Rightarrow>
                  if length_os a > 0 then
                    let n = (if length_os a < ESM_DATA_IP_ADDRESS_SIZE K then length_os a
                             else ESM_DATA_IP_ADDRESS_SIZE K)
                    in p\<lparr>ip_addr := take n (value_os a) @ drop n (ip_addr p),
                         type_pdn := Some pdn_type\<rparr>
                  else p)
     in p)"

text \<open>
  \<open>_pdn_connectivity_create\<close> (an Isabelle name cannot start with an underscore).
  The two calls of \<open>MALLOC_CHECK\<close> may fail: \<open>malloc_pdn\<close> and \<open>malloc_apn\<close> say
  whether the allocation of the connection record, and of the copy of the APN,
  succeeds. \<open>apn\<close> and \<open>pdn_addr\<close> are pointers that may be \<open>NULL\<close> (\<open>None\<close>).
  The result is the returned identifier and the context after the call.
\<close>

definition pdn_connectivity_create ::
  "esm_macros \<Rightarrow> bool \<Rightarrow> bool \<Rightarrow> emm_data_context_t \<Rightarrow> int \<Rightarrow> OctetString option
    \<Rightarrow> esm_proc_pdn_type_t \<Rightarrow> OctetString option \<Rightarrow> bool
    \<Rightarrow> (int \<times> emm_data_context_t) outcome" where
  "pdn_connectivity_create K malloc_pdn malloc_apn ctx pti_arg apn_arg pdn_type pdn_addr
      is_emergency_arg =
    (case pdn_search (ESM_DATA_PDN_MAX K) ctx 0 of
       Aborted \<Rightarrow> Aborted
     | OutOfBounds \<Rightarrow> OutOfBounds
     | Returned pid_var \<Rightarrow>
        if pid_var < ESM_DATA_PDN_MAX K then
          if malloc_pdn then
            let ctx = n_pdns_set (n_pdns (esm_data_ctx ctx) + 1) ctx;
                slot = pdn (esm_data_ctx ctx) ! pid_var;
                slot = slot\<lparr>pid := int pid_var\<rparr>;
                slot = slot\<lparr>is_active := False\<rparr>;
                slot = slot\<lparr>data := Some (esm_pdn_setup K malloc_apn pti_arg apn_arg pdn_type
                                             pdn_addr is_emergency_arg)\<rparr>;
                ctx = pdn_set pid_var slot ctx
            in Returned (pid (pdn (esm_data_ctx ctx) ! pid_var), ctx)
          else Returned (- 1, ctx)
        else Returned (- 1, ctx))"

subsection \<open>Deleting a PDN connection\<close>

text \<open>
  \<open>_pdn_connectivity_delete\<close>. The context pointer may be \<open>NULL\<close> (\<open>None\<close>). The
  function compares \<open>pid\<close> with \<open>ESM_DATA_PDN_MAX\<close> only from above, so a negative
  \<open>pid\<close> indexes the array outside its bounds. The result is the returned transaction
  identity and the context after the call.
\<close>

definition pdn_connectivity_delete ::
  "esm_macros \<Rightarrow> emm_data_context_t option \<Rightarrow> int
    \<Rightarrow> (int \<times> emm_data_context_t option) outcome" where
  "pdn_connectivity_delete K ctx_ptr pid_arg =
    (let pti_var = ESM_PT_UNASSIGNED K in
     case ctx_ptr of
       None \<Rightarrow> Returned (pti_var, None)
     | Some ctx \<Rightarrow>
        (case
           (if pid_arg < int (ESM_DATA_PDN_MAX K) then
              (case pdn_at ctx pid_arg of
                 None \<Rightarrow> OutOfBounds
               | Some slot \<Rightarrow>
                   if pid_arg \<noteq> pid slot then Returned pti_var
                   else
                     (case data slot of
                        None \<Rightarrow> Returned pti_var
                      | Some p \<Rightarrow>
                          if is_active slot then Returned pti_var
                          else Returned (pti p)))
            else Returned pti_var)
         of
           Aborted \<Rightarrow> Aborted
         | OutOfBounds \<Rightarrow> OutOfBounds
         | Returned pti_var \<Rightarrow>
            if pti_var \<noteq> ESM_PT_UNASSIGNED K then
              let ctx = n_pdns_set (n_pdns (esm_data_ctx ctx) - 1) ctx;
                  slot = pdn (esm_data_ctx ctx) ! nat pid_arg;
                  slot = slot\<lparr>pid := - 1\<rparr>;
                  slot = slot\<lparr>data := None\<rparr>;
                  ctx = pdn_set (nat pid_arg) slot ctx
              in Returned (pti_var, Some ctx)
            else Returned (pti_var, Some ctx)))"

subsection \<open>The procedure's entry points\<close>

text \<open>
  \<open>esm_proc_pdn_connectivity_request\<close>, built without \<open>ORIGINAL_CODE\<close> (the
  capability check is the stub \<open>rc = RETURNok\<close>). The result is the returned value,
  the cause stored through \<open>esm_cause\<close>, and the context after the call.
\<close>

definition esm_proc_pdn_connectivity_request ::
  "esm_macros \<Rightarrow> bool \<Rightarrow> bool \<Rightarrow> emm_data_context_t \<Rightarrow> int \<Rightarrow> esm_proc_pdn_request_t
    \<Rightarrow> OctetString option \<Rightarrow> esm_proc_pdn_type_t \<Rightarrow> OctetString option
    \<Rightarrow> ((int \<times> esm_cause) \<times> emm_data_context_t) outcome" where
  "esm_proc_pdn_connectivity_request K malloc_pdn malloc_apn ctx pti_arg request_type apn_arg
      pdn_type pdn_addr =
    (let rc = RETURNerror;
         pid_var = RETURNerror;
         esm_cause_var = ESM_CAUSE_SUCCESS;
         rc = RETURNok
     in
       if rc \<noteq> RETURNerror then
         let is_emergency_var = (request_type = ESM_PDN_REQUEST_EMERGENCY) in
         case pdn_connectivity_create K malloc_pdn malloc_apn ctx pti_arg apn_arg pdn_type
                pdn_addr is_emergency_var of
           Aborted \<Rightarrow> Aborted
         | OutOfBounds \<Rightarrow> OutOfBounds
         | Returned (pid_var, ctx) \<Rightarrow>
             if pid_var < 0 then
               Returned ((RETURNerror, ESM_CAUSE_INSUFFICIENT_RESOURCES), ctx)
             else Returned ((pid_var, esm_cause_var), ctx)
       else Returned ((pid_var, esm_cause_var), ctx))"

text \<open>\<open>esm_proc_pdn_connectivity_failure\<close>.\<close>

definition esm_proc_pdn_connectivity_failure ::
  "esm_macros \<Rightarrow> emm_data_context_t \<Rightarrow> int \<Rightarrow> (int \<times> emm_data_context_t option) outcome" where
  "esm_proc_pdn_connectivity_failure K ctx pid_arg =
    (case pdn_connectivity_delete K (Some ctx) pid_arg of
       Aborted \<Rightarrow> Aborted
     | OutOfBounds \<Rightarrow> OutOfBounds
     | Returned (pti_var, ctx') \<Rightarrow>
         if pti_var \<noteq> ESM_PT_UNASSIGNED K then Returned (RETURNok, ctx')
         else Returned (RETURNerror, ctx'))"

subsection \<open>Sequences of calls on one subscriber context\<close>

datatype pdn_call =
    Create bool bool int "OctetString option" esm_proc_pdn_type_t "OctetString option" bool
  | Delete int

text \<open>
  One call, and a sequence of calls in order: the values the calls returned and the
  context after the last one. A call that is undefined ends the run.
\<close>

fun pdn_step :: "esm_macros \<Rightarrow> pdn_call \<Rightarrow> emm_data_context_t \<Rightarrow> (int \<times> emm_data_context_t) outcome" where
  "pdn_step K (Create malloc_pdn malloc_apn pti_arg apn_arg pdn_type pdn_addr emergency) ctx =
     pdn_connectivity_create K malloc_pdn malloc_apn ctx pti_arg apn_arg pdn_type pdn_addr emergency"
| "pdn_step K (Delete pid_arg) ctx =
     (case pdn_connectivity_delete K (Some ctx) pid_arg of
        Aborted \<Rightarrow> Aborted
      | OutOfBounds \<Rightarrow> OutOfBounds
      | Returned (r, c) \<Rightarrow> Returned (r, case c of None \<Rightarrow> ctx | Some ctx' \<Rightarrow> ctx'))"

fun pdn_run :: "esm_macros \<Rightarrow> pdn_call list \<Rightarrow> emm_data_context_t \<Rightarrow> (int list \<times> emm_data_context_t) outcome" where
  "pdn_run K [] ctx = Returned ([], ctx)"
| "pdn_run K (c # cs) ctx =
     (case pdn_step K c ctx of
        Aborted \<Rightarrow> Aborted
      | OutOfBounds \<Rightarrow> OutOfBounds
      | Returned (r, ctx') \<Rightarrow>
          (case pdn_run K cs ctx' of
             Aborted \<Rightarrow> Aborted
           | OutOfBounds \<Rightarrow> OutOfBounds
           | Returned (rs, ctx'') \<Rightarrow> Returned (r # rs, ctx'')))"

text \<open>
  Modelled from the spec: the code that initialises a subscriber's ESM context is not
  among the sources. The specification's empty table has no connection, every slot is
  free and its stored id is the sentinel \<open>-1\<close>. The array has \<open>n\<close> elements.
\<close>

definition free_slot :: pdn_slot where
  "free_slot = \<lparr>pid = - 1, is_active = False, data = None\<rparr>"

definition esm_data_empty :: "nat \<Rightarrow> emm_data_context_t" where
  "esm_data_empty n = \<lparr>ue_id = 0, esm_data_ctx = \<lparr>n_pdns = 0, pdn = replicate n free_slot\<rparr>\<rparr>"

text \<open>
  The slot invariant: the array holds the \<open>ESM_DATA_PDN_MAX\<close> slots of the table,
  \<open>n_pdns\<close> is the number of occupied ones, an occupied slot stores its own index and
  a free slot stores \<open>-1\<close>.
\<close>

definition occupied :: "esm_macros \<Rightarrow> emm_data_context_t \<Rightarrow> nat" where
  "occupied K ctx =
     length (filter (\<lambda>s. data s \<noteq> None) (take (ESM_DATA_PDN_MAX K) (pdn (esm_data_ctx ctx))))"

definition slot_ok :: "nat \<Rightarrow> pdn_slot \<Rightarrow> bool" where
  "slot_ok i s = (case data s of None \<Rightarrow> pid s = - 1 | Some p \<Rightarrow> pid s = int i)"

definition pdn_table_inv :: "esm_macros \<Rightarrow> emm_data_context_t \<Rightarrow> bool" where
  "pdn_table_inv K ctx =
    (ESM_DATA_PDN_MAX K \<le> length (pdn (esm_data_ctx ctx))
     \<and> n_pdns (esm_data_ctx ctx) = int (occupied K ctx)
     \<and> (\<forall>i < ESM_DATA_PDN_MAX K. slot_ok i (pdn (esm_data_ctx ctx) ! i)))"

section \<open>Auxiliary definitions and example inputs\<close>


text \<open>
  The connection with identifier \<open>i\<close> can be released: \<open>i\<close> is in range, the slot
  stores \<open>i\<close>, is occupied and inactive, and the stored transaction identity is not
  \<open>ESM_PT_UNASSIGNED\<close>.
\<close>

definition deletable :: "esm_macros \<Rightarrow> emm_data_context_t \<Rightarrow> int \<Rightarrow> bool" where
  "deletable K ctx i = (0 \<le> i \<and> i < int (ESM_DATA_PDN_MAX K) \<and>
     (let slot = pdn (esm_data_ctx ctx) ! nat i in
       pid slot = i \<and> \<not> is_active slot
       \<and> (case data slot of None \<Rightarrow> False | Some p \<Rightarrow> pti p \<noteq> ESM_PT_UNASSIGNED K)))"

text \<open>Example inputs for the closed theorems: output records, IE bodies, a configuration.\<close>

definition mc_zero :: mbms_ip_multicast_distribution_t where
  "mc_zero = \<lparr>cteid = 0, da_type = 0,
              distribution_address = \<lparr>ipv4_address = 0, ipv6_address = replicate 16 0\<rparr>,
              sa_type = 0,
              source_address = \<lparr>ipv4_address = 0, ipv6_address = replicate 16 0\<rparr>,
              hc_indication = 0\<rparr>"

definition mc_ipv4_example :: "uint8_t list" where
  "mc_ipv4_example = [0x00, 0x00, 0x00, 0x01, 0x00, 192, 0, 2, 1, 0x00, 10, 0, 0, 1, 0x01]"

definition mc_ipv6_example :: "uint8_t list" where
  "mc_ipv6_example =
     [0x00, 0x00, 0x00, 0x02,
      0x50, 0, 0, 0, 0, 0, 0, 0, 0, 0, 0, 0, 0, 0, 0, 0, 0,
      0x50, 0, 0, 0, 0, 0, 0, 0, 0, 0, 0, 0, 0, 0, 0, 0, 0,
      0x01]"

definition K_example :: esm_macros where
  "K_example = \<lparr>ESM_DATA_PDN_MAX = 2, ESM_PT_UNASSIGNED = 0, ESM_DATA_IP_ADDRESS_SIZE = 4\<rparr>"

definition apn_example :: OctetString where
  "apn_example = \<lparr>length_os = 3, value_os = [0x6E, 0x65, 0x74]\<rparr>"

definition addr_example :: OctetString where
  "addr_example = \<lparr>length_os = 4, value_os = [10, 0, 0, 1]\<rparr>"

definition calls_example :: "pdn_call list" where
  "calls_example =
    [Create True True 5 (Some apn_example) ESM_PDN_TYPE_IPV4 (Some addr_example) False,
     Create True False 6 None ESM_PDN_TYPE_IPV6 None True,
     Delete 0]"

text \<open>
  Two creates fill a table of two slots, the third create fails and returns \<open>-1\<close>, and
  that value is then passed to delete as the connection identifier.
\<close>

definition calls_failed_request_example :: "pdn_call list" where
  "calls_failed_request_example =
    [Create True True 5 (Some apn_example) ESM_PDN_TYPE_IPV4 (Some addr_example) False,
     Create True False 6 None ESM_PDN_TYPE_IPV6 None True,
     Create True True 7 (Some apn_example) ESM_PDN_TYPE_IPV4 (Some addr_example) False,
     Delete (- 1)]"

definition ctx_unassigned_example :: emm_data_context_t where
  "ctx_unassigned_example =
    \<lparr>ue_id = 0,
     esm_data_ctx =
       \<lparr>n_pdns = 1,
        pdn = [\<lparr>pid = 0, is_active = False,
                 data = Some \<lparr>pti = 0, is_emergency = False,
                              apn = \<lparr>length_os = 0, value_os = []\<rparr>,
                              type_pdn = None, ip_addr = [0, 0, 0, 0]\<rparr>\<rparr>,
               free_slot]\<rparr>\<rparr>"

definition ctx_full_example :: emm_data_context_t where
  "ctx_full_example =
    \<lparr>ue_id = 0,
     esm_data_ctx =
       \<lparr>n_pdns = 2,
        pdn = [\<lparr>pid = 0, is_active = False,
                 data = Some \<lparr>pti = 5, is_emergency = False,
                              apn = \<lparr>length_os = 3, value_os = [0x6E, 0x65, 0x74, 0]\<rparr>,
                              type_pdn = Some ESM_PDN_TYPE_IPV4, ip_addr = [10, 0, 0, 1]\<rparr>\<rparr>,
               \<lparr>pid = 1, is_active = False,
                 data = Some \<lparr>pti = 6, is_emergency = True,
                              apn = \<lparr>length_os = 0, value_os = []\<rparr>,
                              type_pdn = None, ip_addr = [0, 0, 0, 0]\<rparr>\<rparr>]\<rparr>\<rparr>"

section \<open>Properties\<close>

subsection \<open>Facts about bytes\<close>

lemma bit0_iff: "(b AND 0x01 \<noteq> 0) = bit (b :: uint8_t) 0"
  by (simp add: and_one_eq bit_0 mod_2_eq_odd)

lemma bit1_iff: "(b AND 0x02 \<noteq> 0) = bit (b :: uint8_t) 1"
  using and_exp_eq_0_iff_not_bit [of b 1] by simp

lemma unat_uint8_lt: "unat (b :: uint8_t) < 256"
  using unsigned_less [of b, where ?'a = nat] by simp

lemma unat_ucast_8_32: "unat (ucast (b :: uint8_t) :: uint32_t) = unat b"
  using unat_uint8_lt [of b] by (simp add: unsigned_ucast_eq take_bit_nat_eq_self)

lemma unat_shl_8_32:
  assumes "n \<le> 24"
  shows "unat (push_bit n (ucast (b :: uint8_t)) :: uint32_t) = unat b * 2 ^ n"
proof -
  have "unat b * 2 ^ n < 2 ^ 8 * 2 ^ n"
    using unat_uint8_lt [of b] by simp
  also have "\<dots> = (2::nat) ^ (8 + n)" by (simp add: power_add)
  also have "\<dots> \<le> 2 ^ 32" using assms by (intro power_increasing) simp_all
  finally have lt: "unat b * 2 ^ n < 2 ^ 32" .
  have "unat (push_bit n (ucast b) :: uint32_t) = take_bit 32 (push_bit n (unat b))"
    by (simp only: unsigned_push_bit_eq unat_ucast_8_32) simp
  also have "\<dots> = unat b * 2 ^ n"
    using lt by (simp add: push_bit_eq_mult take_bit_nat_eq_self)
  finally show ?thesis .
qed

lemma bit_128: "bit (128 :: uint8_t) n = (n = 7)"
proof -
  have "bit ((2::uint8_t) ^ 7) n = (n = 7)"
    by (simp only: bit_exp_iff) auto
  then show ?thesis by simp
qed

lemma and_0x80: "unat ((b :: uint8_t) AND 0x80) = (if bit b 7 then 128 else 0)"
proof (cases "bit b 7")
  case False
  then have "b AND 128 = 0" using and_exp_eq_0_iff_not_bit [of b 7] by simp
  then show ?thesis using False by simp
next
  case True
  have "bit (b AND 128) n = bit (128 :: uint8_t) n" for n
    using True bit_128 [of n] by (simp add: bit_and_iff) blast
  then have "b AND 128 = 128"
    by (rule bit_eqI)
  then show ?thesis using True by simp
qed

lemma and_0x7F: "unat ((b :: uint8_t) AND 0x7F) = unat b mod 128"
proof -
  have m: "(0x7F :: uint8_t) = mask 7" by (simp add: mask_eq_exp_minus_1)
  have "unat (b AND mask 7) = unat (take_bit 7 b)"
    by (simp only: take_bit_eq_mask)
  also have "\<dots> = take_bit 7 (unat b)" by (rule unsigned_take_bit_eq)
  also have "\<dots> = unat b mod 2 ^ 7" by (rule take_bit_eq_mod)
  finally show ?thesis by (simp add: m)
qed

lemma seconds_value:
  "unat (push_bit 17 (ucast (b0 :: uint8_t)) + push_bit 9 (ucast (b1 :: uint8_t))
          + ucast ((b2 :: uint8_t) AND 0x80) :: uint32_t)
     = unat b0 * 2 ^ 17 + unat b1 * 2 ^ 9 + unat (b2 AND 0x80)"
proof -
  let ?x = "push_bit 17 (ucast b0) :: uint32_t"
  let ?y = "push_bit 9 (ucast b1) :: uint32_t"
  let ?z = "ucast (b2 AND 0x80) :: uint32_t"
  have x: "unat ?x = unat b0 * 2 ^ 17" by (simp add: unat_shl_8_32)
  have y: "unat ?y = unat b1 * 2 ^ 9" by (simp add: unat_shl_8_32)
  have z: "unat ?z = unat (b2 AND 0x80)" by (rule unat_ucast_8_32)
  have z': "unat (b2 AND 0x80) \<le> 128" by (simp add: and_0x80)
  have b: "unat b0 < 256" "unat b1 < 256" by (rule unat_uint8_lt)+
  have "unat ?x + unat ?y < 2 ^ LENGTH(32)"
    using b by (simp add: x y)
  then have xy: "unat (?x + ?y) = unat ?x + unat ?y"
    by (rule unat_add_lem [THEN iffD1])
  have "unat (?x + ?y) + unat ?z < 2 ^ LENGTH(32)"
    using b z' by (simp add: xy x y z)
  then have "unat (?x + ?y + ?z) = unat (?x + ?y) + unat ?z"
    by (rule unat_add_lem [THEN iffD1])
  then show ?thesis by (simp only: xy x y z)
qed

subsection \<open>Bearer flags and session duration\<close>

text \<open>
  Claim C8. The MBMS bearer-flags decoder returns \<open>NW_GTPV2C_IE_INCORRECT\<close> (the
  incorrect-length code) for every declared length other than 1 and leaves the output
  as it was; for a declared length of 1 it returns \<open>NW_OK\<close> with \<open>msri\<close> set to bit 0
  and \<open>lmri\<close> set to bit 1 of the first byte.
\<close>

theorem mbms_flags_decode:
  "fst (sm_mbms_flags_ie_get ieLength buf bearer_flags) =
     (if ieLength \<noteq> 1 then (NW_GTPV2C_IE_INCORRECT, bearer_flags)
      else (NW_OK, bearer_flags\<lparr>msri := bit (buf 0) 0, lmri := bit (buf 0) 1\<rparr>))"
  by (simp add: sm_mbms_flags_ie_get_def deref_def rd_init_def bit0_iff bit1_iff)

text \<open>
  The byte \<open>0x01\<close> gives \<open>msri\<close> true and \<open>lmri\<close> false, the byte \<open>0x03\<close> gives both
  true, and the declared lengths 0 and 2 are refused.
\<close>

theorem mbms_flags_decode_witness:
  "fst (sm_mbms_flags_ie_get 1 (buf_of [0x01]) \<lparr>msri = False, lmri = True\<rparr>)
     = (NW_OK, \<lparr>msri = True, lmri = False\<rparr>)
   \<and> fst (sm_mbms_flags_ie_get 1 (buf_of [0x03]) \<lparr>msri = False, lmri = False\<rparr>)
     = (NW_OK, \<lparr>msri = True, lmri = True\<rparr>)
   \<and> fst (sm_mbms_flags_ie_get 2 (buf_of [0x03, 0x00]) \<lparr>msri = False, lmri = False\<rparr>)
     = (NW_GTPV2C_IE_INCORRECT, \<lparr>msri = False, lmri = False\<rparr>)
   \<and> fst (sm_mbms_flags_ie_get 0 (buf_of []) \<lparr>msri = False, lmri = False\<rparr>)
     = (NW_GTPV2C_IE_INCORRECT, \<lparr>msri = False, lmri = False\<rparr>)"
  using mbms_flags_decode [of 1 "buf_of [0x01]" "\<lparr>msri = False, lmri = True\<rparr>"]
    mbms_flags_decode [of 1 "buf_of [0x03]" "\<lparr>msri = False, lmri = False\<rparr>"]
    mbms_flags_decode [of 2 "buf_of [0x03, 0x00]" "\<lparr>msri = False, lmri = False\<rparr>"]
    mbms_flags_decode [of 0 "buf_of []" "\<lparr>msri = False, lmri = False\<rparr>"]
  by (simp add: buf_of_def bit_numeral_simps)

text \<open>
  Claim C9. For the bytes \<open>b0 b1 b2 b3\<close> at the start of the IE body, the MBMS
  session-duration decoder returns \<open>NW_OK\<close>, the decoded \<open>seconds\<close> field has the
  value \<open>(b0 << 17) + (b1 << 9) + (b2 & 0x80)\<close> (no term is lost to overflow or
  truncation) and the decoded \<open>days\<close> field is \<open>b3 & 0x7F\<close>, the low seven bits of
  \<open>b3\<close>. The declared length plays no part.
\<close>

theorem mbms_session_duration_decode:
  "fst (fst (sm_mbms_session_duration_ie_get ieLength buf msd)) = NW_OK
   \<and> unat (seconds (snd (fst (sm_mbms_session_duration_ie_get ieLength buf msd))))
       = unat (buf 0) * 2 ^ 17 + unat (buf 1) * 2 ^ 9 + unat (buf 2 AND 0x80)
   \<and> days (snd (fst (sm_mbms_session_duration_ie_get ieLength buf msd))) = buf 3 AND 0x7F
   \<and> unat (days (snd (fst (sm_mbms_session_duration_ie_get ieLength buf msd))))
       = unat (buf 3) mod 128"
proof -
  have r: "fst (sm_mbms_session_duration_ie_get ieLength buf msd)
      = (NW_OK, msd\<lparr>seconds := push_bit 17 (ucast (buf 0)) + push_bit 9 (ucast (buf 1))
                                 + ucast (buf 2 AND 0x80),
                    days := buf 3 AND 0x7F\<rparr>)"
    by (simp add: sm_mbms_session_duration_ie_get_def deref_def rd_init_def advance_def
        numeral_2_eq_2 [symmetric])
  show ?thesis
    using seconds_value [of "buf 0" "buf 1" "buf 2"] and_0x7F [of "buf 3"]
    by (simp add: r)
qed

theorem mbms_session_duration_decode_witness:
  "unat (seconds (snd (fst (sm_mbms_session_duration_ie_get 4
            (buf_of [0x01, 0x02, 0x80, 0xFF]) \<lparr>seconds = 0, days = 0\<rparr>)))) = 132224
   \<and> days (snd (fst (sm_mbms_session_duration_ie_get 4
            (buf_of [0x01, 0x02, 0x80, 0xFF]) \<lparr>seconds = 0, days = 0\<rparr>))) = 0x7F"
  using mbms_session_duration_decode
    [of 4 "buf_of [0x01, 0x02, 0x80, 0xFF]" "\<lparr>seconds = 0, days = 0\<rparr>"]
  by (simp add: buf_of_def)

subsection \<open>Byte order of the IPv4 addresses\<close>

text \<open>
  Storing \<open>htonl\<close> of the big-endian value of four wire bytes puts exactly those bytes
  into memory, on a host of either byte order.
\<close>

lemma byte_of_be32:
  "byte_of 3 (be32 b0 b1 b2 b3) = b0"
  "byte_of 2 (be32 b0 b1 b2 b3) = b1"
  "byte_of (Suc 0) (be32 b0 b1 b2 b3) = b2"
  "byte_of 0 (be32 b0 b1 b2 b3) = b3"
  unfolding byte_of_def be32_def
  by (rule bit_eqI; auto simp add: bit_simps dest: bit_imp_le_length)+

lemma obj_bytes_htonl:
  "obj_bytes le (htonl le (be32 b0 b1 b2 b3)) = [b0, b1, b2, b3]"
  by (simp add: obj_bytes_def htonl_def byte_of_be32)

lemma buf_of_apply: "buf_of bs i = (if i < length bs then bs ! i else 0)"
  by (simp add: buf_of_def)

subsection \<open>The IP multicast distribution decoder, block by block\<close>

text \<open>What an address block does, as one equation in the pointer \<open>p\<close> it starts at.\<close>

lemma mc_distribution_address_eq:
  "mc_distribution_address le buf ms =
    (let mc = fst ms; s = snd ms; p = ieValue s; d = buf p; t = drop_bit 6 (d AND 0xC0) in
     if t = 0 then
       Inr (mc\<lparr>da_type := t, distribution_address := (distribution_address mc)
               \<lparr>ipv4_address := htonl le (be32 (buf (p + 1)) (buf (p + 2)) (buf (p + 3)) (buf (p + 4)))\<rparr>\<rparr>,
            \<lparr>ieValue = p + 5, accessed = accessed s @ [p, p, p + 1, p + 2, p + 3, p + 4]\<rparr>)
     else if t = 1 \<and> unat (d AND 0x3F) = 16 then
       Inr (mc\<lparr>da_type := t, distribution_address := (distribution_address mc)
               \<lparr>ipv6_address := map buf [p + 1..<p + 17]\<rparr>\<rparr>,
            \<lparr>ieValue = p + 17, accessed = accessed s @ [p, p] @ [p + 1..<p + 17]\<rparr>)
     else Inl ((NW_FAILURE, mc\<lparr>da_type := t\<rparr>), \<lparr>ieValue = p + 1, accessed = accessed s @ [p, p]\<rparr>))"
  by (cases ms) (simp add: mc_distribution_address_def deref_def deref_n_def advance_def Let_def eval_nat_numeral)

lemma mc_source_address_eq:
  "mc_source_address le buf ms =
    (let mc = fst ms; s = snd ms; p = ieValue s; d = buf p; t = drop_bit 6 (d AND 0xC0) in
     if t = 0 then
       Inr (mc\<lparr>sa_type := t, source_address := (source_address mc)
               \<lparr>ipv4_address := htonl le (be32 (buf (p + 1)) (buf (p + 2)) (buf (p + 3)) (buf (p + 4)))\<rparr>\<rparr>,
            \<lparr>ieValue = p + 5, accessed = accessed s @ [p, p, p + 1, p + 2, p + 3, p + 4]\<rparr>)
     else if t = 1 \<and> unat (d AND 0x3F) = 16 then
       Inr (mc\<lparr>sa_type := t, source_address := (source_address mc)
               \<lparr>ipv6_address := map buf [p + 1..<p + 17]\<rparr>\<rparr>,
            \<lparr>ieValue = p + 17, accessed = accessed s @ [p, p] @ [p + 1..<p + 17]\<rparr>)
     else Inl ((NW_FAILURE, mc\<lparr>sa_type := t\<rparr>), \<lparr>ieValue = p + 1, accessed = accessed s @ [p, p]\<rparr>))"
  by (cases ms) (simp add: mc_source_address_def deref_def deref_n_def advance_def Let_def eval_nat_numeral)

lemmas mc_eval = sm_mbms_ip_multicast_distribution_ie_get_def ntoh_int32_buf_def deref_def
  deref_n_def rd_init_def advance_def mc_distribution_address_def mc_source_address_def
  Let_def buf_of_apply

text \<open>
  Claim C5, as amended. The IE body starts with the four bytes of the C-TEID, read as a
  big-endian value. The two tagged addresses follow: the descriptor of the
  distribution address is the byte at offset 4, and the descriptor of the source address
  is the byte right after the distribution address (offset 9 after an IPv4 address,
  offset 21 after an IPv6 address). A descriptor whose top two bits are 0 is followed
  by exactly four bytes, and the bytes of the stored \<open>s_addr\<close> (network order) are those
  four bytes. A descriptor whose top two bits are 1 needs the length 16 in its low six
  bits, otherwise the decoder returns \<open>NW_FAILURE\<close>; with length 16 the sixteen bytes
  are copied. Any other family value returns \<open>NW_FAILURE\<close> as well. When both
  addresses are accepted the decoder returns \<open>NW_OK\<close> and the byte after the source
  address is the hop-count indication.
\<close>

theorem ip_multicast_layout:
  "let d = buf 4; t = drop_bit 6 (d AND 0xC0);
       q = (if t = 0 then 9 else 21);
       e = buf q; u = drop_bit 6 (e AND 0xC0);
       da_ok = (t = 0 \<or> t = 1 \<and> unat (d AND 0x3F) = 16);
       sa_ok = (u = 0 \<or> u = 1 \<and> unat (e AND 0x3F) = 16);
       r = fst (sm_mbms_ip_multicast_distribution_ie_get le ieLength buf mc);
       rc = fst r; out = snd r
   in cteid out = be32 (buf 0) (buf 1) (buf 2) (buf 3)
    \<and> (t = 0 \<longrightarrow> obj_bytes le (ipv4_address (distribution_address out)) = [buf 5, buf 6, buf 7, buf 8])
    \<and> (t = 1 \<and> unat (d AND 0x3F) = 16 \<longrightarrow> ipv6_address (distribution_address out) = map buf [5..<21])
    \<and> (t = 1 \<and> unat (d AND 0x3F) \<noteq> 16 \<longrightarrow> rc = NW_FAILURE)
    \<and> (t \<noteq> 0 \<and> t \<noteq> 1 \<longrightarrow> rc = NW_FAILURE)
    \<and> (da_ok \<longrightarrow>
         (u = 0 \<longrightarrow> obj_bytes le (ipv4_address (source_address out))
                     = [buf (q + 1), buf (q + 2), buf (q + 3), buf (q + 4)])
       \<and> (u = 1 \<and> unat (e AND 0x3F) = 16 \<longrightarrow> ipv6_address (source_address out) = map buf [q + 1..<q + 17])
       \<and> (u = 1 \<and> unat (e AND 0x3F) \<noteq> 16 \<longrightarrow> rc = NW_FAILURE)
       \<and> (u \<noteq> 0 \<and> u \<noteq> 1 \<longrightarrow> rc = NW_FAILURE)
       \<and> (sa_ok \<longrightarrow> rc = NW_OK \<and> hc_indication out = buf (q + (if u = 0 then 5 else 17))))"
  by (simp add: sm_mbms_ip_multicast_distribution_ie_get_def ntoh_int32_buf_def deref_def
      rd_init_def advance_def mc_distribution_address_eq mc_source_address_eq
      Let_def obj_bytes_htonl numeral_2_eq_2 [symmetric])

text \<open>
  After a C-TEID, the descriptor \<open>0x00\<close> and the bytes of 192.0.2.1 give back that
  address; sixteen zero bytes after the descriptor \<open>0x50\<close> give the all-zeros IPv6
  address; the descriptors \<open>0xC0\<close> (family 3) and \<open>0x44\<close> (IPv6 with length 4) are
  refused.
\<close>

theorem ip_multicast_layout_witness:
  "fst (fst (sm_mbms_ip_multicast_distribution_ie_get True 15 (buf_of mc_ipv4_example) mc_zero)) = NW_OK
   \<and> obj_bytes True (ipv4_address (distribution_address (snd (fst
         (sm_mbms_ip_multicast_distribution_ie_get True 15 (buf_of mc_ipv4_example) mc_zero)))))
       = [192, 0, 2, 1]
   \<and> obj_bytes True (ipv4_address (source_address (snd (fst
         (sm_mbms_ip_multicast_distribution_ie_get True 15 (buf_of mc_ipv4_example) mc_zero)))))
       = [10, 0, 0, 1]
   \<and> hc_indication (snd (fst
         (sm_mbms_ip_multicast_distribution_ie_get True 15 (buf_of mc_ipv4_example) mc_zero))) = 1
   \<and> fst (fst (sm_mbms_ip_multicast_distribution_ie_get True 39 (buf_of mc_ipv6_example) mc_zero)) = NW_OK
   \<and> ipv6_address (distribution_address (snd (fst
         (sm_mbms_ip_multicast_distribution_ie_get True 39 (buf_of mc_ipv6_example) mc_zero))))
       = [0, 0, 0, 0, 0, 0, 0, 0, 0, 0, 0, 0, 0, 0, 0, 0]
   \<and> fst (fst (sm_mbms_ip_multicast_distribution_ie_get False 5
         (buf_of [0x00, 0x00, 0x00, 0x01, 0xC0]) mc_zero)) = NW_FAILURE
   \<and> fst (fst (sm_mbms_ip_multicast_distribution_ie_get False 9
         (buf_of [0x00, 0x00, 0x00, 0x01, 0x44, 192, 0, 2, 1]) mc_zero)) = NW_FAILURE"
  using ip_multicast_layout [where buf = "buf_of mc_ipv4_example" and le = True and ieLength = 15 and mc = mc_zero]
    ip_multicast_layout [where buf = "buf_of mc_ipv6_example" and le = True and ieLength = 39 and mc = mc_zero]
    ip_multicast_layout [where buf = "buf_of [0x00, 0x00, 0x00, 0x01, 0xC0]" and le = False and ieLength = 5 and mc = mc_zero]
    ip_multicast_layout [where buf = "buf_of [0x00, 0x00, 0x00, 0x01, 0x44, 192, 0, 2, 1]" and le = False and ieLength = 9 and mc = mc_zero]
  by (simp add: Let_def buf_of_apply mc_ipv4_example_def mc_ipv6_example_def)

text \<open>
  Claim C5 as stated fails: the body does not start with the first descriptor. A body
  whose first byte is \<open>0xC0\<close> is accepted (the byte is part of the C-TEID), and in a
  body that starts with the descriptor \<open>0x00\<close> and the bytes of 192.0.2.1 the decoder
  takes the descriptor from offset 4 and the address from offsets 5 to 8.
\<close>

theorem ip_multicast_first_byte_counterexample:
  "fst (fst (sm_mbms_ip_multicast_distribution_ie_get True 15
      (buf_of [0xC0, 0x00, 0x00, 0x00, 0x00, 192, 0, 2, 1, 0x00, 10, 0, 0, 1, 0x01]) mc_zero)) = NW_OK
   \<and> fst (fst (sm_mbms_ip_multicast_distribution_ie_get True 11
      (buf_of [0x00, 192, 0, 2, 1, 0x00, 10, 0, 0, 1, 0x01]) mc_zero)) = NW_OK
   \<and> obj_bytes True (ipv4_address (distribution_address (snd (fst
         (sm_mbms_ip_multicast_distribution_ie_get True 11
            (buf_of [0x00, 192, 0, 2, 1, 0x00, 10, 0, 0, 1, 0x01]) mc_zero)))))
       = [0, 10, 0, 0]"
  by (simp add: mc_eval obj_bytes_htonl)

subsection \<open>Which bytes the decoders read\<close>










subsection \<open>The loops of the TMGI and service-area decoders\<close>

text \<open>
  Neither loop changes \<open>decoded\<close>, so a loop that is entered is never left: if it
  returns at all, its condition was false at the start.
\<close>

lemma sm_tmgi_loop_exit:
  assumes "sm_tmgi_loop N buf decoded ts = Some y"
  shows "\<not> unat decoded < N"
proof (rule sm_tmgi_loop.raw_induct [where P = "\<lambda>N buf decoded ts y. \<not> unat decoded < N", OF _ assms])
  fix loop :: "nat \<Rightarrow> ie_mem \<Rightarrow> uint8_t \<Rightarrow> tmgi_t \<times> rd_state \<Rightarrow> (tmgi_t \<times> rd_state) option"
    and N buf decoded ts y
  assume IH: "\<And>N buf decoded ts y. loop N buf decoded ts = Some y \<Longrightarrow> \<not> unat decoded < N"
    and eq: "(if unat decoded < N then loop N buf decoded (sm_tmgi_loop_body buf decoded ts)
              else Some ts) = Some y"
  show "\<not> unat decoded < N"
  proof
    assume c: "unat decoded < N"
    with eq have "loop N buf decoded (sm_tmgi_loop_body buf decoded ts) = Some y" by simp
    then have "\<not> unat decoded < N" by (rule IH)
    with c show False by contradiction
  qed
qed

lemma sm_tmgi_loop_diverges:
  "unat decoded < N \<Longrightarrow> sm_tmgi_loop N buf decoded ts = None"
  using sm_tmgi_loop_exit [of N buf decoded ts] by (cases "sm_tmgi_loop N buf decoded ts") auto

lemma sm_tmgi_never_returns:
  "0 < N \<Longrightarrow> sm_tmgi_ie_get a N ieLength buf tmgi \<noteq> Some (Returned r)"
  by (simp add: sm_tmgi_ie_get_def sm_tmgi_loop_diverges)

lemma sm_mbms_service_area_loop_body_num:
  "num_service_area (fst (sm_mbms_service_area_loop_body le buf decoded as)) = num_service_area (fst as)"
  by (simp add: sm_mbms_service_area_loop_body_def Let_def split: prod.splits)

lemma sm_mbms_service_area_loop_exit:
  assumes "sm_mbms_service_area_loop le buf decoded as = Some y"
  shows "\<not> decoded < uint (num_service_area (fst as))"
proof (rule sm_mbms_service_area_loop.raw_induct
    [where P = "\<lambda>le buf decoded as y. \<not> decoded < uint (num_service_area (fst as))", OF _ assms])
  fix loop :: "bool \<Rightarrow> ie_mem \<Rightarrow> int \<Rightarrow> mbms_service_area_t \<times> rd_state
    \<Rightarrow> (mbms_service_area_t \<times> rd_state) option"
    and le buf decoded as y
  assume IH: "\<And>le buf decoded as y. loop le buf decoded as = Some y
               \<Longrightarrow> \<not> decoded < uint (num_service_area (fst as))"
    and eq: "(if decoded < uint (num_service_area (fst as))
              then loop le buf decoded (sm_mbms_service_area_loop_body le buf decoded as)
              else Some as) = Some y"
  show "\<not> decoded < uint (num_service_area (fst as))"
  proof
    assume c: "decoded < uint (num_service_area (fst as))"
    with eq have "loop le buf decoded (sm_mbms_service_area_loop_body le buf decoded as) = Some y"
      by simp
    then have "\<not> decoded < uint (num_service_area
                 (fst (sm_mbms_service_area_loop_body le buf decoded as)))"
      by (rule IH)
    with c show False by (simp add: sm_mbms_service_area_loop_body_num)
  qed
qed

lemma sm_mbms_service_area_loop_diverges:
  "decoded < uint (num_service_area (fst as)) \<Longrightarrow> sm_mbms_service_area_loop le buf decoded as = None"
  using sm_mbms_service_area_loop_exit [of le buf decoded as]
  by (cases "sm_mbms_service_area_loop le buf decoded as") auto

lemma sm_mbms_service_area_diverges:
  assumes "buf 0 \<noteq> 0"
  shows "sm_mbms_service_area_ie_get le ieLength buf area = None"
proof -
  have "uint (buf 0) \<noteq> 0" using assms by (simp add: unsigned_eq_0_iff)
  moreover have "0 \<le> uint (buf 0)" by simp
  ultimately have "0 < uint (buf 0)" by linarith
  then show ?thesis
  by (simp add: sm_mbms_service_area_ie_get_def deref_def rd_init_def advance_def
      sm_mbms_service_area_loop_diverges)
qed

text \<open>
  Claim C6. With three service-id bytes, the TMGI decoder does not return on the
  well-formed body \<open>00 00 01 21 F3 54\<close>: without assertions the loop over the
  service-id bytes never exits, and with assertions the length check
  \<open>ieLength <= MBMS_SERVICE_ID_DIGITS\<close> stops the process. Where the body passes the
  length check (\<open>MBMS_SERVICE_ID_DIGITS\<close> = 6) the loop never exits either. No service
  identifier and no PLMN digit is delivered. Lemma \<open>sm_tmgi_never_returns\<close> is the same
  fact for every positive number of service-id bytes and every body.
\<close>

theorem tmgi_decode_does_not_return:
  "sm_tmgi_ie_get False 3 6 (buf_of [0x00, 0x00, 0x01, 0x21, 0xF3, 0x54])
      \<lparr>serviceId = 0, plmn = \<lparr>mcc_digit1 = 0, mcc_digit2 = 0, mcc_digit3 = 0,
                               mnc_digit1 = 0, mnc_digit2 = 0, mnc_digit3 = 0\<rparr>\<rparr> = None
   \<and> sm_tmgi_ie_get True 3 6 (buf_of [0x00, 0x00, 0x01, 0x21, 0xF3, 0x54])
      \<lparr>serviceId = 0, plmn = \<lparr>mcc_digit1 = 0, mcc_digit2 = 0, mcc_digit3 = 0,
                               mnc_digit1 = 0, mnc_digit2 = 0, mnc_digit3 = 0\<rparr>\<rparr> = Some Aborted
   \<and> sm_tmgi_ie_get True 6 6 (buf_of [0x00, 0x00, 0x01, 0x21, 0xF3, 0x54])
      \<lparr>serviceId = 0, plmn = \<lparr>mcc_digit1 = 0, mcc_digit2 = 0, mcc_digit3 = 0,
                               mnc_digit1 = 0, mnc_digit2 = 0, mnc_digit3 = 0\<rparr>\<rparr> = None"
  by (simp add: sm_tmgi_ie_get_def sm_tmgi_loop_diverges)

text \<open>
  Claim C7. The service-area decoder does not return on a body whose element count is
  1, and the TMGI decoder does not return when there is one service-id byte: both
  loops run forever.
\<close>

theorem service_area_decode_does_not_return:
  "sm_mbms_service_area_ie_get True 3 (buf_of [0x01, 0x34, 0x12])
      \<lparr>num_service_area = 0, serviceArea = [0, 0]\<rparr> = None
   \<and> sm_tmgi_ie_get False 1 4 (buf_of [0x07, 0x21, 0xF3, 0x54])
      \<lparr>serviceId = 0, plmn = \<lparr>mcc_digit1 = 0, mcc_digit2 = 0, mcc_digit3 = 0,
                               mnc_digit1 = 0, mnc_digit2 = 0, mnc_digit3 = 0\<rparr>\<rparr> = None"
  by (simp add: sm_mbms_service_area_diverges buf_of_def sm_tmgi_ie_get_def sm_tmgi_loop_diverges)

subsection \<open>The PDN connection table\<close>

lemma pdn_search_returns:
  assumes "M \<le> length (pdn (esm_data_ctx ctx))" and "i \<le> M"
  shows "\<exists>p. pdn_search M ctx i = Returned p \<and> i \<le> p \<and> p \<le> M
           \<and> (\<forall>j. i \<le> j \<and> j < p \<longrightarrow> data (pdn (esm_data_ctx ctx) ! j) \<noteq> None)
           \<and> (p < M \<longrightarrow> data (pdn (esm_data_ctx ctx) ! p) = None)"
  using assms
proof (induction M ctx i rule: pdn_search.induct)
  case (1 M ctx i)
  show ?case
  proof (cases "i < M")
    case False
    with 1(3) show ?thesis by (subst pdn_search.simps) auto
  next
    case True
    then have at: "pdn_at ctx (int i) = Some (pdn (esm_data_ctx ctx) ! i)"
      using 1(2) by (simp add: pdn_at_def)
    show ?thesis
    proof (cases "data (pdn (esm_data_ctx ctx) ! i) = None")
      case True
      with \<open>i < M\<close> at show ?thesis by (subst pdn_search.simps) auto
    next
      case False
      from 1(1) [OF \<open>i < M\<close> at False 1(2)] \<open>i < M\<close>
      obtain p where p: "pdn_search M ctx (i + 1) = Returned p" "i + 1 \<le> p" "p \<le> M"
        "\<forall>j. i + 1 \<le> j \<and> j < p \<longrightarrow> data (pdn (esm_data_ctx ctx) ! j) \<noteq> None"
        "p < M \<longrightarrow> data (pdn (esm_data_ctx ctx) ! p) = None"
        by auto
      have "\<forall>j. i \<le> j \<and> j < p \<longrightarrow> data (pdn (esm_data_ctx ctx) ! j) \<noteq> None"
      proof (intro allI impI)
        fix j assume "i \<le> j \<and> j < p"
        then show "data (pdn (esm_data_ctx ctx) ! j) \<noteq> None"
          using p(4) False by (cases "j = i") auto
      qed
      with p \<open>i < M\<close> at False show ?thesis
        by (subst pdn_search.simps) auto
    qed
  qed
qed

lemma filter_update_count:
  "i < length xs \<Longrightarrow>
     length (filter P (xs[i := y])) + (if P (xs ! i) then 1 else 0)
       = length (filter P xs) + (if P y then 1 else 0)"
proof (induction xs arbitrary: i)
  case Nil
  then show ?case by simp
next
  case (Cons x xs)
  then show ?case by (cases i) auto
qed

lemma occupied_pdn_set:
  assumes "i < ESM_DATA_PDN_MAX K" and "ESM_DATA_PDN_MAX K \<le> length (pdn (esm_data_ctx ctx))"
  shows "occupied K (pdn_set i s ctx) + (if data (pdn (esm_data_ctx ctx) ! i) \<noteq> None then 1 else 0)
           = occupied K ctx + (if data s \<noteq> None then 1 else 0)"
proof -
  let ?xs = "take (ESM_DATA_PDN_MAX K) (pdn (esm_data_ctx ctx))"
  have i: "i < length ?xs" using assms by simp
  have "take (ESM_DATA_PDN_MAX K) ((pdn (esm_data_ctx ctx))[i := s]) = ?xs[i := s]"
    by (simp add: take_update_swap)
  moreover have "?xs ! i = pdn (esm_data_ctx ctx) ! i" using assms by simp
  ultimately show ?thesis
    using filter_update_count [OF i, of "\<lambda>s. data s \<noteq> None" s]
    by (simp add: occupied_def pdn_set_def)
qed

lemma occupied_n_pdns_set [simp]: "occupied K (n_pdns_set n ctx) = occupied K ctx"
  by (simp add: occupied_def n_pdns_set_def)

lemma pdn_n_pdns_set [simp]: "pdn (esm_data_ctx (n_pdns_set n ctx)) = pdn (esm_data_ctx ctx)"
  by (simp add: n_pdns_set_def)

lemma n_pdns_n_pdns_set [simp]: "n_pdns (esm_data_ctx (n_pdns_set n ctx)) = n"
  by (simp add: n_pdns_set_def)

lemma pdn_pdn_set [simp]: "pdn (esm_data_ctx (pdn_set i s ctx)) = (pdn (esm_data_ctx ctx))[i := s]"
  by (simp add: pdn_set_def)

lemma n_pdns_pdn_set [simp]: "n_pdns (esm_data_ctx (pdn_set i s ctx)) = n_pdns (esm_data_ctx ctx)"
  by (simp add: pdn_set_def)

text \<open>Create fails without touching the context when no slot is free or the allocation fails.\<close>

lemma create_no_slot:
  assumes "ESM_DATA_PDN_MAX K \<le> length (pdn (esm_data_ctx ctx))"
    and "(\<forall>j < ESM_DATA_PDN_MAX K. data (pdn (esm_data_ctx ctx) ! j) \<noteq> None) \<or> \<not> malloc_pdn"
  shows "pdn_connectivity_create K malloc_pdn malloc_apn ctx pti_arg apn_arg ty addr em
           = Returned (- 1, ctx)"
proof -
  obtain p where p: "pdn_search (ESM_DATA_PDN_MAX K) ctx 0 = Returned p"
    "p < ESM_DATA_PDN_MAX K \<longrightarrow> data (pdn (esm_data_ctx ctx) ! p) = None"
    using pdn_search_returns [OF assms(1), of 0] by auto
  with assms(2) have "\<not> p < ESM_DATA_PDN_MAX K \<or> \<not> malloc_pdn" by auto
  with p(1) show ?thesis by (auto simp add: pdn_connectivity_create_def)
qed

lemma esm_pdn_setup_pti [simp]:
  "pti (esm_pdn_setup K malloc_apn pti_arg apn_arg ty addr em) = pti_arg"
  by (simp add: esm_pdn_setup_def Let_def split: option.splits)

lemma slot_all_upd:
  "(s :: pdn_slot)\<lparr>pid := a, is_active := b, data := c\<rparr> = \<lparr>pid = a, is_active = b, data = c\<rparr>"
  by (cases s) simp

lemma create_cases:
  assumes "ESM_DATA_PDN_MAX K \<le> length (pdn (esm_data_ctx ctx))"
  shows "pdn_connectivity_create K malloc_pdn malloc_apn ctx pti_arg apn_arg ty addr em
           = Returned (- 1, ctx)
       \<or> (\<exists>p. p < ESM_DATA_PDN_MAX K \<and> data (pdn (esm_data_ctx ctx) ! p) = None
             \<and> (\<forall>j<p. data (pdn (esm_data_ctx ctx) ! j) \<noteq> None)
             \<and> pdn_connectivity_create K malloc_pdn malloc_apn ctx pti_arg apn_arg ty addr em
               = Returned (int p,
                   pdn_set p \<lparr>pid = int p, is_active = False,
                              data = Some (esm_pdn_setup K malloc_apn pti_arg apn_arg ty addr em)\<rparr>
                     (n_pdns_set (n_pdns (esm_data_ctx ctx) + 1) ctx)))"
proof -
  obtain p where p: "pdn_search (ESM_DATA_PDN_MAX K) ctx 0 = Returned p"
    "p < ESM_DATA_PDN_MAX K \<longrightarrow> data (pdn (esm_data_ctx ctx) ! p) = None"
    "\<forall>j. 0 \<le> j \<and> j < p \<longrightarrow> data (pdn (esm_data_ctx ctx) ! j) \<noteq> None"
    using pdn_search_returns [OF assms(1), of 0] by auto
  show ?thesis
  proof (cases "p < ESM_DATA_PDN_MAX K \<and> malloc_pdn")
    case False
    with p(1) show ?thesis by (auto simp add: pdn_connectivity_create_def)
  next
    case True
    then have pl: "p < length (pdn (esm_data_ctx ctx))" using assms by simp
    have "pdn_connectivity_create K malloc_pdn malloc_apn ctx pti_arg apn_arg ty addr em
               = Returned (int p,
                   pdn_set p \<lparr>pid = int p, is_active = False,
                              data = Some (esm_pdn_setup K malloc_apn pti_arg apn_arg ty addr em)\<rparr>
                     (n_pdns_set (n_pdns (esm_data_ctx ctx) + 1) ctx))"
      using True p(1) pl by (simp add: pdn_connectivity_create_def Let_def slot_all_upd)
    with True p show ?thesis by auto
  qed
qed

text \<open>Delete, as one equation.\<close>

lemma delete_eq:
  assumes "ESM_DATA_PDN_MAX K \<le> length (pdn (esm_data_ctx ctx))"
  shows "pdn_connectivity_delete K (Some ctx) i =
    (if i < 0 then OutOfBounds
     else if deletable K ctx i then
       Returned (pti (the (data (pdn (esm_data_ctx ctx) ! nat i))),
         Some (pdn_set (nat i) ((pdn (esm_data_ctx ctx) ! nat i)\<lparr>pid := - 1, data := None\<rparr>)
                (n_pdns_set (n_pdns (esm_data_ctx ctx) - 1) ctx)))
     else Returned (ESM_PT_UNASSIGNED K, Some ctx))"
proof (cases "i < 0")
  case True
  then show ?thesis by (simp add: pdn_connectivity_delete_def pdn_at_def)
next
  case nonneg: False
  show ?thesis
  proof (cases "i < int (ESM_DATA_PDN_MAX K)")
    case False
    with nonneg show ?thesis by (simp add: pdn_connectivity_delete_def deletable_def)
  next
    case True
    with nonneg assms have at: "pdn_at ctx i = Some (pdn (esm_data_ctx ctx) ! nat i)"
      by (simp add: pdn_at_def)
    show ?thesis
      using nonneg True at
      by (auto simp add: pdn_connectivity_delete_def deletable_def Let_def split: option.splits)
  qed
qed

lemma delete_negative:
  "i < 0 \<Longrightarrow> pdn_connectivity_delete K (Some ctx) i = OutOfBounds"
  by (simp add: pdn_connectivity_delete_def pdn_at_def)

lemma delete_guard:
  assumes "ESM_DATA_PDN_MAX K \<le> length (pdn (esm_data_ctx ctx))" and "0 \<le> pid_arg"
    and "int (ESM_DATA_PDN_MAX K) \<le> pid_arg
         \<or> pid (pdn (esm_data_ctx ctx) ! nat pid_arg) \<noteq> pid_arg
         \<or> data (pdn (esm_data_ctx ctx) ! nat pid_arg) = None
         \<or> is_active (pdn (esm_data_ctx ctx) ! nat pid_arg)"
  shows "pdn_connectivity_delete K (Some ctx) pid_arg = Returned (ESM_PT_UNASSIGNED K, Some ctx)"
  using assms by (auto simp add: delete_eq deletable_def Let_def split: option.splits)

text \<open>The slot invariant holds for the empty table and is kept by every call.\<close>

lemma empty_inv:
  assumes "ESM_DATA_PDN_MAX K \<le> n"
  shows "pdn_table_inv K (esm_data_empty n)"
  using assms
  by (simp add: pdn_table_inv_def esm_data_empty_def occupied_def slot_ok_def free_slot_def
      take_replicate)

lemma create_inv:
  assumes inv: "pdn_table_inv K ctx"
  shows "\<exists>r ctx'. pdn_connectivity_create K malloc_pdn malloc_apn ctx pti_arg apn_arg ty addr em
                     = Returned (r, ctx')
          \<and> pdn_table_inv K ctx'
          \<and> (r = - 1 \<and> ctx' = ctx
              \<or> 0 \<le> r \<and> n_pdns (esm_data_ctx ctx') = n_pdns (esm_data_ctx ctx) + 1)"
proof -
  from inv have len: "ESM_DATA_PDN_MAX K \<le> length (pdn (esm_data_ctx ctx))"
    and cnt: "n_pdns (esm_data_ctx ctx) = int (occupied K ctx)"
    and ok: "\<And>i. i < ESM_DATA_PDN_MAX K \<Longrightarrow> slot_ok i (pdn (esm_data_ctx ctx) ! i)"
    by (simp_all add: pdn_table_inv_def)
  from create_cases [OF len, of malloc_pdn malloc_apn pti_arg apn_arg ty addr em]
  show ?thesis
  proof
    assume "pdn_connectivity_create K malloc_pdn malloc_apn ctx pti_arg apn_arg ty addr em
              = Returned (- 1, ctx)"
    with inv show ?thesis by simp
  next
    assume "\<exists>p. p < ESM_DATA_PDN_MAX K \<and> data (pdn (esm_data_ctx ctx) ! p) = None
             \<and> (\<forall>j<p. data (pdn (esm_data_ctx ctx) ! j) \<noteq> None)
             \<and> pdn_connectivity_create K malloc_pdn malloc_apn ctx pti_arg apn_arg ty addr em
               = Returned (int p,
                   pdn_set p \<lparr>pid = int p, is_active = False,
                              data = Some (esm_pdn_setup K malloc_apn pti_arg apn_arg ty addr em)\<rparr>
                     (n_pdns_set (n_pdns (esm_data_ctx ctx) + 1) ctx))"
    then obtain p where p: "p < ESM_DATA_PDN_MAX K" "data (pdn (esm_data_ctx ctx) ! p) = None"
      and eq: "pdn_connectivity_create K malloc_pdn malloc_apn ctx pti_arg apn_arg ty addr em
               = Returned (int p,
                   pdn_set p \<lparr>pid = int p, is_active = False,
                              data = Some (esm_pdn_setup K malloc_apn pti_arg apn_arg ty addr em)\<rparr>
                     (n_pdns_set (n_pdns (esm_data_ctx ctx) + 1) ctx))"
      by blast
    let ?slot = "\<lparr>pid = int p, is_active = False,
                  data = Some (esm_pdn_setup K malloc_apn pti_arg apn_arg ty addr em)\<rparr>"
    let ?c1 = "n_pdns_set (n_pdns (esm_data_ctx ctx) + 1) ctx"
    let ?c2 = "pdn_set p ?slot ?c1"
    have occ: "occupied K ?c2 = occupied K ctx + 1"
      using occupied_pdn_set [of p K ?c1 ?slot] p len by simp
    have "slot_ok i (pdn (esm_data_ctx ?c2) ! i)" if "i < ESM_DATA_PDN_MAX K" for i
    proof (cases "i = p")
      case True
      with p len show ?thesis by (simp add: slot_ok_def)
    next
      case False
      with ok [OF that] show ?thesis by simp
    qed
    then have "pdn_table_inv K ?c2"
      using len cnt occ by (simp add: pdn_table_inv_def)
    with eq show ?thesis by simp
  qed
qed

lemma delete_inv:
  assumes inv: "pdn_table_inv K ctx" and nonneg: "0 \<le> i"
  shows "\<exists>r ctx'. pdn_connectivity_delete K (Some ctx) i = Returned (r, Some ctx')
          \<and> pdn_table_inv K ctx'"
proof -
  from inv have len: "ESM_DATA_PDN_MAX K \<le> length (pdn (esm_data_ctx ctx))"
    and cnt: "n_pdns (esm_data_ctx ctx) = int (occupied K ctx)"
    and ok: "\<And>j. j < ESM_DATA_PDN_MAX K \<Longrightarrow> slot_ok j (pdn (esm_data_ctx ctx) ! j)"
    by (simp_all add: pdn_table_inv_def)
  show ?thesis
  proof (cases "deletable K ctx i")
    case False
    with nonneg inv show ?thesis by (simp add: delete_eq [OF len])
  next
    case True
    let ?j = "nat i"
    let ?slot = "(pdn (esm_data_ctx ctx) ! ?j)\<lparr>pid := - 1, data := None\<rparr>"
    let ?c1 = "n_pdns_set (n_pdns (esm_data_ctx ctx) - 1) ctx"
    let ?c2 = "pdn_set ?j ?slot ?c1"
    from True nonneg have j: "?j < ESM_DATA_PDN_MAX K"
      and d: "data (pdn (esm_data_ctx ctx) ! ?j) \<noteq> None"
      by (auto simp add: deletable_def Let_def split: option.splits)
    have occ: "occupied K ?c2 + 1 = occupied K ctx"
      using occupied_pdn_set [of ?j K ?c1 ?slot] j d len by simp
    have "slot_ok k (pdn (esm_data_ctx ?c2) ! k)" if "k < ESM_DATA_PDN_MAX K" for k
    proof (cases "k = ?j")
      case True
      with j len show ?thesis by (simp add: slot_ok_def)
    next
      case False
      with ok [OF that] show ?thesis by simp
    qed
    then have "pdn_table_inv K ?c2"
      using len cnt occ by (simp add: pdn_table_inv_def)
    with True nonneg show ?thesis by (simp add: delete_eq [OF len])
  qed
qed

lemma step_inv:
  assumes inv: "pdn_table_inv K ctx"
  shows "case pdn_step K c ctx of
           Returned (r, ctx') \<Rightarrow> pdn_table_inv K ctx'
         | OutOfBounds \<Rightarrow> \<exists>i<0. c = Delete i
         | Aborted \<Rightarrow> False"
proof (cases c)
  case (Create m1 m2 pti_arg apn_arg ty addr em)
  with create_inv [OF inv, of m1 m2 pti_arg apn_arg ty addr em] show ?thesis by auto
next
  case (Delete i)
  show ?thesis
  proof (cases "i < 0")
    case True
    with Delete show ?thesis by (simp add: delete_negative)
  next
    case False
    then have "0 \<le> i" by simp
    from delete_inv [OF inv this] Delete show ?thesis by auto
  qed
qed

lemma run_inv:
  assumes "pdn_table_inv K ctx"
  shows "case pdn_run K calls ctx of
           Returned (rs, ctx') \<Rightarrow> pdn_table_inv K ctx'
         | OutOfBounds \<Rightarrow> \<exists>i<0. Delete i \<in> set calls
         | Aborted \<Rightarrow> False"
  using assms
proof (induction calls arbitrary: ctx)
  case Nil
  then show ?case by simp
next
  case (Cons c cs)
  from step_inv [OF Cons.prems, of c] show ?case
  proof (cases "pdn_step K c ctx")
    case Aborted
    with step_inv [OF Cons.prems, of c] show ?thesis by simp
  next
    case OutOfBounds
    with step_inv [OF Cons.prems, of c] show ?thesis by auto
  next
    case (Returned rc)
    obtain r ctx' where rc: "rc = (r, ctx')" by (cases rc)
    with Returned step_inv [OF Cons.prems, of c] have "pdn_table_inv K ctx'" by simp
    from Cons.IH [OF this] Returned rc show ?thesis
      by (cases "pdn_run K cs ctx'") auto
  qed
qed

text \<open>
  A sequence of calls that contains a delete with a negative identifier does not complete:
  the run stops at the first such delete, which indexes the array below its first element.
\<close>

lemma run_negative_delete:
  assumes "pdn_table_inv K ctx" and "i < 0" and "Delete i \<in> set calls"
  shows "pdn_run K calls ctx = OutOfBounds"
  using assms
proof (induction calls arbitrary: ctx)
  case Nil
  then show ?case by simp
next
  case (Cons c cs)
  show ?case
  proof (cases "pdn_step K c ctx")
    case Aborted
    with step_inv [OF Cons.prems(1), of c] show ?thesis by simp
  next
    case OutOfBounds
    then show ?thesis by simp
  next
    case (Returned rc)
    obtain r ctx' where rc: "rc = (r, ctx')" by (cases rc)
    with Returned step_inv [OF Cons.prems(1), of c] have inv': "pdn_table_inv K ctx'" by simp
    from Returned Cons.prems(2) have "c \<noteq> Delete i" by (auto simp add: delete_negative)
    with Cons.prems(3) have "Delete i \<in> set cs" by simp
    from Cons.IH [OF inv' Cons.prems(2) this] Returned rc show ?thesis by simp
  qed
qed

text \<open>
  Start from the empty table (at least \<open>ESM_DATA_PDN_MAX\<close> slots, all free) and run a
  finite sequence of create and delete calls in which no delete has a negative identifier.
  The sequence completes, and afterwards \<open>n_pdns\<close> is the number of occupied slots,
  every occupied slot stores its own index and every free slot stores \<open>-1\<close>.
\<close>

lemma pdn_slot_invariant_nonneg:
  assumes "ESM_DATA_PDN_MAX K \<le> n" and "\<forall>i. Delete i \<in> set calls \<longrightarrow> 0 \<le> i"
  shows "\<exists>rs ctx. pdn_run K calls (esm_data_empty n) = Returned (rs, ctx)
           \<and> n_pdns (esm_data_ctx ctx) = int (occupied K ctx)
           \<and> (\<forall>i < ESM_DATA_PDN_MAX K.
                 (data (pdn (esm_data_ctx ctx) ! i) \<noteq> None
                    \<longrightarrow> pid (pdn (esm_data_ctx ctx) ! i) = int i)
               \<and> (data (pdn (esm_data_ctx ctx) ! i) = None
                    \<longrightarrow> pid (pdn (esm_data_ctx ctx) ! i) = - 1))"
proof (cases "pdn_run K calls (esm_data_empty n)")
  case Aborted
  with run_inv [OF empty_inv [OF assms(1)], of calls] show ?thesis by simp
next
  case OutOfBounds
  with run_inv [OF empty_inv [OF assms(1)], of calls] assms(2) show ?thesis by force
next
  case (Returned rc)
  obtain rs ctx where rc: "rc = (rs, ctx)" by (cases rc)
  with Returned run_inv [OF empty_inv [OF assms(1)], of calls] have inv: "pdn_table_inv K ctx"
    by simp
  then have "\<forall>i < ESM_DATA_PDN_MAX K. slot_ok i (pdn (esm_data_ctx ctx) ! i)"
    by (simp add: pdn_table_inv_def)
  then have "\<forall>i < ESM_DATA_PDN_MAX K.
                   (data (pdn (esm_data_ctx ctx) ! i) \<noteq> None
                      \<longrightarrow> pid (pdn (esm_data_ctx ctx) ! i) = int i)
                 \<and> (data (pdn (esm_data_ctx ctx) ! i) = None
                      \<longrightarrow> pid (pdn (esm_data_ctx ctx) ! i) = - 1)"
    by (auto simp add: slot_ok_def split: option.splits)
  with inv Returned rc show ?thesis by (simp add: pdn_table_inv_def)
qed

lemmas pdn_eval = pdn_connectivity_create_def pdn_connectivity_delete_def pdn_search.simps
  pdn_at_def pdn_set_def n_pdns_set_def esm_data_empty_def free_slot_def K_example_def
  esm_pdn_setup_def Let_def apn_example_def addr_example_def eval_nat_numeral

lemma pdn_slot_invariant_nonneg_example:
  "\<exists>rs ctx. pdn_run K_example calls_example (esm_data_empty 2) = Returned (rs, ctx)
        \<and> rs = [0, 1, 5]
        \<and> n_pdns (esm_data_ctx ctx) = int (occupied K_example ctx)
        \<and> n_pdns (esm_data_ctx ctx) = 1
        \<and> map pid (pdn (esm_data_ctx ctx)) = [- 1, 1]
        \<and> map (\<lambda>s. data s = None) (pdn (esm_data_ctx ctx)) = [True, False]"
  using pdn_slot_invariant_nonneg [of K_example 2 calls_example]
  by (simp add: calls_example_def pdn_eval occupied_def)

text \<open>
  Claim C2. The claim holds for every sequence whose delete identifiers are not negative
  (lemma \<open>pdn_slot_invariant_nonneg\<close>), but not for every sequence: the range check of
  \<open>_pdn_connectivity_delete\<close> has no lower bound. With two slots, two creates succeed
  and the third returns \<open>-1\<close>; deleting the identifier \<open>-1\<close> then reads the slot
  below the array, so the sequence does not complete with a table the claim describes.
  The same happens on the empty table.
\<close>

theorem pdn_run_negative_delete_out_of_bounds:
  "pdn_run K_example (butlast calls_failed_request_example) (esm_data_empty 2)
     = Returned ([0, 1, - 1], ctx_full_example)
   \<and> pdn_run K_example calls_failed_request_example (esm_data_empty 2) = OutOfBounds
   \<and> pdn_run K_example [Delete (- 1)] (esm_data_empty 2) = OutOfBounds"
  by (simp add: calls_failed_request_example_def pdn_eval ctx_full_example_def)

subsection \<open>Exhaustion and allocation failure\<close>

lemma filter_all:
  assumes "length (filter P xs) = length xs"
  shows "\<forall>x \<in> set xs. P x"
proof (rule ballI, rule ccontr)
  fix x assume "x \<in> set xs" and "\<not> P x"
  then have "length (filter P xs) < length xs" by (rule length_filter_less)
  with assms show False by simp
qed

lemma inv_full:
  assumes inv: "pdn_table_inv K ctx" and n: "n_pdns (esm_data_ctx ctx) = int (ESM_DATA_PDN_MAX K)"
  shows "\<forall>j < ESM_DATA_PDN_MAX K. data (pdn (esm_data_ctx ctx) ! j) \<noteq> None"
proof (intro allI impI)
  fix j assume j: "j < ESM_DATA_PDN_MAX K"
  let ?xs = "take (ESM_DATA_PDN_MAX K) (pdn (esm_data_ctx ctx))"
  from inv have len: "ESM_DATA_PDN_MAX K \<le> length (pdn (esm_data_ctx ctx))"
    and cnt: "n_pdns (esm_data_ctx ctx) = int (occupied K ctx)"
    by (simp_all add: pdn_table_inv_def)
  from cnt n len have "length (filter (\<lambda>s. data s \<noteq> None) ?xs) = length ?xs"
    by (simp add: occupied_def)
  then have all: "\<forall>x \<in> set ?xs. data x \<noteq> None" by (rule filter_all)
  from j len have "?xs ! j \<in> set ?xs" by (intro nth_mem) simp
  moreover from j have "?xs ! j = pdn (esm_data_ctx ctx) ! j" by simp
  ultimately show "data (pdn (esm_data_ctx ctx) ! j) \<noteq> None" using all by auto
qed

lemma run_creates_count:
  assumes "pdn_table_inv K ctx" and "\<forall>i. Delete i \<notin> set calls"
    and "pdn_run K calls ctx = Returned (rs, ctx')"
  shows "pdn_table_inv K ctx'
         \<and> n_pdns (esm_data_ctx ctx') + int (length (filter (\<lambda>r. r < 0) rs))
             = n_pdns (esm_data_ctx ctx) + int (length calls)"
  using assms
proof (induction calls arbitrary: ctx rs)
  case Nil
  then show ?case by simp
next
  case (Cons c cs)
  from Cons.prems(2) obtain m1 m2 pti_arg apn_arg ty addr em
    where c: "c = Create m1 m2 pti_arg apn_arg ty addr em"
    by (cases c) auto
  from create_inv [OF Cons.prems(1), of m1 m2 pti_arg apn_arg ty addr em]
  obtain r ctx1 where r: "pdn_connectivity_create K m1 m2 ctx pti_arg apn_arg ty addr em
                             = Returned (r, ctx1)"
    and inv1: "pdn_table_inv K ctx1"
    and eff: "r = - 1 \<and> ctx1 = ctx
              \<or> 0 \<le> r \<and> n_pdns (esm_data_ctx ctx1) = n_pdns (esm_data_ctx ctx) + 1"
    by blast
  from Cons.prems(3) c r obtain rs1 where run1: "pdn_run K cs ctx1 = Returned (rs1, ctx')"
    and rs: "rs = r # rs1"
    by (cases "pdn_run K cs ctx1") (auto split: prod.splits)
  from Cons.prems(2) have "\<forall>i. Delete i \<notin> set cs" by simp
  from Cons.IH [OF inv1 this run1] eff rs show ?case by auto
qed

lemma RETURN_distinct: "RETURNok \<noteq> RETURNerror"
  by (simp add: RETURNok_def RETURNerror_def)

lemma request_eq:
  "esm_proc_pdn_connectivity_request K malloc_pdn malloc_apn ctx pti_arg request_type apn_arg
      pdn_type pdn_addr =
    (case pdn_connectivity_create K malloc_pdn malloc_apn ctx pti_arg apn_arg pdn_type
                pdn_addr (request_type = ESM_PDN_REQUEST_EMERGENCY) of
           Aborted \<Rightarrow> Aborted
         | OutOfBounds \<Rightarrow> OutOfBounds
         | Returned (pid_var, ctx) \<Rightarrow>
             if pid_var < 0 then
               Returned ((RETURNerror, ESM_CAUSE_INSUFFICIENT_RESOURCES), ctx)
             else Returned ((pid_var, ESM_CAUSE_SUCCESS), ctx))"
  unfolding esm_proc_pdn_connectivity_request_def Let_def
  by (simp only: RETURN_distinct if_True if_False not_False_eq_True not_not)

text \<open>
  Claim C3. When the table has no free slot, or the allocation of the connection record
  fails, the PDN connectivity request returns \<open>RETURNerror\<close> with the cause
  \<open>ESM_CAUSE_INSUFFICIENT_RESOURCES\<close> and the context after the call is the context
  before it. In particular this is so after \<open>ESM_DATA_PDN_MAX\<close> successful creates and
  no delete, starting from the empty table.
\<close>

theorem request_insufficient_resources:
  "(ESM_DATA_PDN_MAX K \<le> length (pdn (esm_data_ctx ctx))
      \<and> ((\<forall>j < ESM_DATA_PDN_MAX K. data (pdn (esm_data_ctx ctx) ! j) \<noteq> None) \<or> \<not> malloc_pdn)
    \<longrightarrow> esm_proc_pdn_connectivity_request K malloc_pdn malloc_apn ctx pti_arg request_type
           apn_arg pdn_type pdn_addr
         = Returned ((RETURNerror, ESM_CAUSE_INSUFFICIENT_RESOURCES), ctx))
   \<and> (ESM_DATA_PDN_MAX K \<le> n \<and> length calls = ESM_DATA_PDN_MAX K
      \<and> (\<forall>i. Delete i \<notin> set calls)
      \<and> pdn_run K calls (esm_data_empty n) = Returned (rs, ctx') \<and> (\<forall>r \<in> set rs. 0 \<le> r)
    \<longrightarrow> esm_proc_pdn_connectivity_request K malloc_pdn malloc_apn ctx' pti_arg request_type
           apn_arg pdn_type pdn_addr
         = Returned ((RETURNerror, ESM_CAUSE_INSUFFICIENT_RESOURCES), ctx'))"
proof (intro conjI impI)
  assume a: "ESM_DATA_PDN_MAX K \<le> length (pdn (esm_data_ctx ctx))
      \<and> ((\<forall>j < ESM_DATA_PDN_MAX K. data (pdn (esm_data_ctx ctx) ! j) \<noteq> None) \<or> \<not> malloc_pdn)"
  then have "pdn_connectivity_create K malloc_pdn malloc_apn ctx pti_arg apn_arg pdn_type
               pdn_addr (request_type = ESM_PDN_REQUEST_EMERGENCY) = Returned (- 1, ctx)"
    by (intro create_no_slot) blast+
  then show "esm_proc_pdn_connectivity_request K malloc_pdn malloc_apn ctx pti_arg request_type
           apn_arg pdn_type pdn_addr
         = Returned ((RETURNerror, ESM_CAUSE_INSUFFICIENT_RESOURCES), ctx)"
    by (simp only: request_eq outcome.case prod.case) simp
next
  assume b: "ESM_DATA_PDN_MAX K \<le> n \<and> length calls = ESM_DATA_PDN_MAX K
      \<and> (\<forall>i. Delete i \<notin> set calls)
      \<and> pdn_run K calls (esm_data_empty n) = Returned (rs, ctx') \<and> (\<forall>r \<in> set rs. 0 \<le> r)"
  then have "filter (\<lambda>r. r < 0) rs = []" by (auto simp add: filter_empty_conv)
  with b run_creates_count [OF empty_inv, of K n calls rs ctx']
  have inv: "pdn_table_inv K ctx'"
    and cnt: "n_pdns (esm_data_ctx ctx') = int (ESM_DATA_PDN_MAX K)"
    by (simp_all add: esm_data_empty_def)
  from inv have len: "ESM_DATA_PDN_MAX K \<le> length (pdn (esm_data_ctx ctx'))"
    by (simp add: pdn_table_inv_def)
  from inv_full [OF inv cnt] len
  have "pdn_connectivity_create K malloc_pdn malloc_apn ctx' pti_arg apn_arg pdn_type
               pdn_addr (request_type = ESM_PDN_REQUEST_EMERGENCY) = Returned (- 1, ctx')"
    by (intro create_no_slot) blast+
  then show "esm_proc_pdn_connectivity_request K malloc_pdn malloc_apn ctx' pti_arg request_type
           apn_arg pdn_type pdn_addr
         = Returned ((RETURNerror, ESM_CAUSE_INSUFFICIENT_RESOURCES), ctx')"
    by (simp only: request_eq outcome.case prod.case) simp
qed

theorem request_insufficient_resources_witness:
  "pdn_run K_example
        [Create True True 5 (Some apn_example) ESM_PDN_TYPE_IPV4 (Some addr_example) False,
         Create True False 6 None ESM_PDN_TYPE_IPV6 None True] (esm_data_empty 2)
        = Returned ([0, 1], ctx_full_example)
   \<and> esm_proc_pdn_connectivity_request K_example True True ctx_full_example 7
         ESM_PDN_REQUEST_NORMAL None ESM_PDN_TYPE_IPV4 None
       = Returned ((RETURNerror, ESM_CAUSE_INSUFFICIENT_RESOURCES), ctx_full_example)
   \<and> esm_proc_pdn_connectivity_request K_example False True (esm_data_empty 2) 7
         ESM_PDN_REQUEST_EMERGENCY None ESM_PDN_TYPE_IPV4 None
       = Returned ((RETURNerror, ESM_CAUSE_INSUFFICIENT_RESOURCES), esm_data_empty 2)"
  using request_insufficient_resources
    [where K = K_example and n = 2 and malloc_pdn = True and malloc_apn = True
       and calls = "[Create True True 5 (Some apn_example) ESM_PDN_TYPE_IPV4 (Some addr_example) False,
         Create True False 6 None ESM_PDN_TYPE_IPV6 None True]"
       and rs = "[0, 1]" and ctx' = ctx_full_example and ctx = ctx_full_example
       and pti_arg = 7 and request_type = ESM_PDN_REQUEST_NORMAL and apn_arg = None
       and pdn_type = ESM_PDN_TYPE_IPV4 and pdn_addr = None]
    request_insufficient_resources
    [where K = K_example and ctx = "esm_data_empty 2" and malloc_pdn = False and malloc_apn = True
       and pti_arg = 7 and request_type = ESM_PDN_REQUEST_EMERGENCY and apn_arg = None
       and pdn_type = ESM_PDN_TYPE_IPV4 and pdn_addr = None
       and n = 2 and calls = "[]" and rs = "[]" and ctx' = "esm_data_empty 2"]
  by (simp add: pdn_eval ctx_full_example_def)

subsection \<open>Deleting and the failure entry point\<close>

text \<open>
  Claim C4. For an identifier that is not negative the guard holds (lemma
  \<open>delete_guard\<close>), but for the identifier \<open>-1\<close> the code indexes the array below
  its first element instead of returning \<open>ESM_PT_UNASSIGNED\<close>; \<open>-1\<close> is also the value
  \<open>RETURNerror\<close> that a failed request hands back as identifier.
\<close>

theorem delete_negative_id_out_of_bounds:
  "pdn_connectivity_delete K_example (Some (esm_data_empty 2)) (- 1) = OutOfBounds
   \<and> esm_proc_pdn_connectivity_failure K_example (esm_data_empty 2) RETURNerror = OutOfBounds"
  by (simp add: pdn_eval esm_proc_pdn_connectivity_failure_def RETURNerror_def)

text \<open>
  Claim C10, as amended. For every context whose array holds the \<open>ESM_DATA_PDN_MAX\<close>
  slots and every identifier that is not negative, \<open>esm_proc_pdn_connectivity_failure\<close>
  returns, its result is \<open>RETURNok\<close> or \<open>RETURNerror\<close>, and it is \<open>RETURNok\<close> if and
  only if the identifier is below \<open>ESM_DATA_PDN_MAX\<close>, the slot is occupied and stores
  that identifier, its \<open>is_active\<close> flag is false, and the stored transaction identity
  differs from \<open>ESM_PT_UNASSIGNED\<close>.
\<close>

theorem failure_ok_iff:
  assumes "ESM_DATA_PDN_MAX K \<le> length (pdn (esm_data_ctx ctx))" and "0 \<le> pid_arg"
  shows "\<exists>r ctx'. esm_proc_pdn_connectivity_failure K ctx pid_arg = Returned (r, Some ctx')
     \<and> (r = RETURNok \<or> r = RETURNerror)
     \<and> (r = RETURNok \<longleftrightarrow>
          pid_arg < int (ESM_DATA_PDN_MAX K)
          \<and> pid (pdn (esm_data_ctx ctx) ! nat pid_arg) = pid_arg
          \<and> \<not> is_active (pdn (esm_data_ctx ctx) ! nat pid_arg)
          \<and> (\<exists>p. data (pdn (esm_data_ctx ctx) ! nat pid_arg) = Some p
                  \<and> pti p \<noteq> ESM_PT_UNASSIGNED K))"
proof (cases "deletable K ctx pid_arg")
  case True
  with assms show ?thesis
    by (auto simp add: esm_proc_pdn_connectivity_failure_def delete_eq deletable_def Let_def
        RETURNok_def RETURNerror_def split: option.splits)
next
  case False
  with assms show ?thesis
    by (auto simp add: esm_proc_pdn_connectivity_failure_def delete_eq deletable_def Let_def
        RETURNok_def RETURNerror_def split: option.splits)
qed

theorem failure_ok_iff_witness:
  "(\<exists>ctx'. esm_proc_pdn_connectivity_failure K_example
        (ctx_unassigned_example\<lparr>esm_data_ctx := (esm_data_ctx ctx_unassigned_example)
           \<lparr>pdn := [\<lparr>pid = 0, is_active = False,
                      data = Some \<lparr>pti = 5, is_emergency = False,
                              apn = \<lparr>length_os = 0, value_os = []\<rparr>,
                              type_pdn = None, ip_addr = [0, 0, 0, 0]\<rparr>\<rparr>, free_slot]\<rparr>\<rparr>) 0
      = Returned (RETURNok, Some ctx')
      \<and> n_pdns (esm_data_ctx ctx') = 0 \<and> pdn (esm_data_ctx ctx') = [free_slot, free_slot])
   \<and> esm_proc_pdn_connectivity_failure K_example ctx_unassigned_example 1
      = Returned (RETURNerror, Some ctx_unassigned_example)"
  using failure_ok_iff [of K_example
        "ctx_unassigned_example\<lparr>esm_data_ctx := (esm_data_ctx ctx_unassigned_example)
           \<lparr>pdn := [\<lparr>pid = 0, is_active = False,
                      data = Some \<lparr>pti = 5, is_emergency = False,
                              apn = \<lparr>length_os = 0, value_os = []\<rparr>,
                              type_pdn = None, ip_addr = [0, 0, 0, 0]\<rparr>\<rparr>, free_slot]\<rparr>\<rparr>" 0]
    failure_ok_iff [of K_example ctx_unassigned_example 1]
  by (simp add: pdn_eval ctx_unassigned_example_def esm_proc_pdn_connectivity_failure_def
      RETURNok_def RETURNerror_def)

text \<open>
  Claim C10 as stated fails: a connection created with the transaction identity
  \<open>ESM_PT_UNASSIGNED\<close> exists and is inactive, yet the failure entry point returns
  \<open>RETURNerror\<close> and leaves it in the table.
\<close>

theorem failure_unassigned_pti_counterexample:
  "pdn_connectivity_create K_example True True (esm_data_empty 2) 0 None ESM_PDN_TYPE_IPV4 None False
     = Returned (0, ctx_unassigned_example)
   \<and> pid (pdn (esm_data_ctx ctx_unassigned_example) ! 0) = 0
   \<and> data (pdn (esm_data_ctx ctx_unassigned_example) ! 0) \<noteq> None
   \<and> is_active (pdn (esm_data_ctx ctx_unassigned_example) ! 0) = False
   \<and> esm_proc_pdn_connectivity_failure K_example ctx_unassigned_example 0
       = Returned (RETURNerror, Some ctx_unassigned_example)"
  by (simp add: pdn_eval ctx_unassigned_example_def esm_proc_pdn_connectivity_failure_def
      RETURNok_def RETURNerror_def)

end
